theory Spec2Isabelle
  imports Main "HOL-Library.AList" "HOL-Library.List_Lexorder" "HOL-Library.Char_ord"
begin

section \<open>The Python code generator of schema-salad (python_codegen.py)\<close>

text \<open>
  The generator turns type declarations into named loader descriptors (\<open>TypeDef\<close>) and
  writes, record by record, the text of a Python class with a \<open>fromDoc\<close> factory and a
  \<open>save\<close> method.  The embedding follows the source method by method.  Text written to
  \<open>self.out\<close> and \<open>self.serializer\<close> is kept as a list of template instances: one
  constructor per string template of the source, holding the values the source
  substitutes into it.  The formatter \<open>fmt\<close> can raise.  It is modelled in \<open>epilogue\<close>,
  whose subject is what the generator writes: nothing is written after \<open>fmt\<close> has
  raised.  \<open>begin_class\<close>, \<open>declare_field\<close> and \<open>end_class\<close> pass parts of their text
  through \<open>fmt\<close> as well; their items stand for the text of a class that has been
  written, which it has been only when \<open>fmt\<close> returned each time.
\<close>

subsection \<open>Strings as Python builds them\<close>

text \<open>\<open>sep.join(xs)\<close>\<close>

fun join :: "string \<Rightarrow> string list \<Rightarrow> string" where
  "join sep [] = []"
| "join sep [x] = x"
| "join sep (x # y # ys) = x @ sep @ join sep (y # ys)"

text \<open>\<open>s.startswith(p)\<close>\<close>

definition startswith :: "string \<Rightarrow> string \<Rightarrow> bool" where
  "startswith s p = (take (length p) s = p)"

text \<open>\<open>list(dict.fromkeys(xs))\<close>: the distinct elements in the order of their first occurrence.\<close>

fun fromkeys_acc :: "'a list \<Rightarrow> 'a list \<Rightarrow> 'a list" where
  "fromkeys_acc acc [] = acc"
| "fromkeys_acc acc (x # xs) = fromkeys_acc (if x \<in> set acc then acc else acc @ [x]) xs"

definition fromkeys :: "'a list \<Rightarrow> 'a list" where
  "fromkeys xs = fromkeys_acc [] xs"

text \<open>\<open>str(b)\<close>, \<open>str(n)\<close> and \<open>str(x)\<close> for an \<open>Optional[int]\<close>, as \<open>format\<close> and f-strings call them.\<close>

definition str_bool :: "bool \<Rightarrow> string" where
  "str_bool b = (if b then ''True'' else ''False'')"

definition digit_char :: "nat \<Rightarrow> char" where
  "digit_char d = char_of (48 + d)"

fun str_nat :: "nat \<Rightarrow> string" where
  "str_nat n = (if n < 10 then [digit_char n] else str_nat (n div 10) @ [digit_char (n mod 10)])"

declare str_nat.simps [simp del]

definition str_int :: "int \<Rightarrow> string" where
  "str_int i = (if i < 0 then CHR ''-'' # str_nat (nat (- i)) else str_nat (nat i))"

definition str_opt_int :: "int option \<Rightarrow> string" where
  "str_opt_int r = (case r of None \<Rightarrow> ''None'' | Some i \<Rightarrow> str_int i)"


text \<open>The double quote, the single quote and the backquote of the templates.\<close>

definition dq :: string where "dq = [CHR 0x22]"
definition sq :: string where "sq = [CHR 0x27]"
definition bq :: string where "bq = [CHR 0x60]"

subsection \<open>Loader descriptors and the generator's state\<close>

text \<open>
  Modelled from the spec: \<open>TypeDef\<close> is declared in codegen_base.py, which is not part of
  the sources at hand.  The spec gives its fields (LoaderDescriptor: name, constructor
  expression, isUriKind, scopedId, refScope as an optional integer, isAbstract); the
  source constructs it with the keywords \<open>is_uri\<close>, \<open>scoped_id\<close>, \<open>ref_scope\<close> and
  \<open>abstract\<close>.  A keyword the source leaves out is False, or None for \<open>ref_scope\<close>.
\<close>

record TypeDef =
  name :: string
  init :: string
  is_uri :: bool
  scoped_id :: bool
  ref_scope :: "int option"
  abstract :: bool

definition mkTypeDef :: "string \<Rightarrow> string \<Rightarrow> TypeDef" where
  "mkTypeDef n i = \<lparr>name = n, init = i, is_uri = False, scoped_id = False,
     ref_scope = None, abstract = False\<rparr>"

text \<open>
  The two functions of the module \<open>schema\<close> that the generator calls.  Their code is not
  part of the sources at hand and the spec does not describe them, so every definition
  takes them as a parameter.
\<close>

record schema_module =
  avro_field_name :: "string \<Rightarrow> string"
  shortname :: "string \<Rightarrow> string"

subsection \<open>The text the generator writes\<close>

text \<open>
  One constructor per template of the source, with the substituted values.  A parameter
  of \<open>__init__\<close> is \<open>{name}: Any,\<close> or \<open>{name}: Optional[Any] = None,\<close>; an assignment
  of \<open>__init__\<close> is \<open>self.class_ = "{classname}"\<close> or \<open>self.{name} = {name}\<close>; the
  fallback of the identifier block is \<open>{name} = "_:" + str(_uuid__.uuid4())\<close> or
  \<open>raise ValidationException("Missing {fieldname}")\<close>.
\<close>

datatype init_param = Required string | Optional string

datatype field_init = SelfClass string | SelfField string

datatype opt_stmt = BlankNode string | RaiseMissing string

text \<open>
  The items, with the text each stands for:
  \<^item> \<open>FileHeader\<close>, \<open>Copyright c\<close>, \<open>SupportCode\<close>, \<open>ParserInfo p\<close>: the parts of the prologue
    (the comment at the top, the copyright comment, the support library, \<open>parser_info\<close>);
  \<^item> \<open>ClassHeader c ext\<close>: \<^verbatim>\<open>class {c}({ext}):\<close>; \<open>DocString doc\<close>: the documentation string;
    \<open>PassBody\<close>: the \<^verbatim>\<open>pass\<close> that is the body of an abstract class;
  \<^item> \<open>InitMethod ps\<close>: \<^verbatim>\<open>def __init__(self, {ps}, extension_fields=None, loadingOptions=None)\<close>
    with the two assignments of \<open>self.extension_fields\<close> and \<open>self.loadingOptions\<close>;
    \<open>FieldInits as\<close>: the assignments of the fields in \<open>__init__\<close>;
  \<^item> \<open>FromDocHeader c\<close>, \<open>ClassCheck c\<close>, \<open>LoadField optional safename fieldname fieldtype\<close>,
    \<open>IdDefault safename opt\<close>, \<open>UnknownFields attrstr c\<close>, \<open>ReturnCls fs\<close>: the statements of
    \<open>fromDoc\<close>, whose text is given with their meaning further down;
  \<^item> \<open>SaveHeader\<close>: the head of \<open>save\<close>, which starts the result \<open>r\<close> with the extension fields;
    \<open>SaveClass c\<close>: \<^verbatim>\<open>r["class"] = "{c}"\<close>;
    \<open>SaveUriField safename fieldname baseurl scoped_id ref_scope\<close>:
    \<^verbatim>\<open>if self.{safename} is not None:\<close>
    \<^verbatim>\<open>    u = save_relative_uri(self.{safename}, {baseurl}, {scoped_id}, {ref_scope}, relative_uris)\<close>
    \<^verbatim>\<open>    if u: r["{fieldname}"] = u\<close>;
    \<open>SaveField safename fieldname baseurl\<close>:
    \<^verbatim>\<open>if self.{safename} is not None:\<close>
    \<^verbatim>\<open>    r["{fieldname}"] = save(self.{safename}, top=False, base_url={baseurl}, relative_uris=relative_uris)\<close>;
    \<open>SaveTop\<close>: the copy of \<open>$namespaces\<close> and \<open>$schemas\<close> when \<open>top\<close> is set;
    \<open>ReturnR\<close>: \<^verbatim>\<open>return r\<close>; \<open>Attrs field_names\<close>: the class attribute \<open>attrs\<close>;
  \<^item> \<open>Newlines\<close>: blank lines;
  \<^item> \<open>VocabOpen\<close>, \<open>VocabEntry k uri\<close>, \<open>VocabClose\<close>: \<^verbatim>\<open>_vocab = {\<close>, one line
    \<^verbatim>\<open>"{k}": "{uri}",\<close> and the closing brace; \<open>RVocabOpen\<close>, \<open>RVocabEntry uri k\<close>,
    \<open>RVocabClose\<close>: the same for \<open>_rvocab\<close>, with the line \<^verbatim>\<open>"{uri}": "{k}",\<close>;
  \<^item> \<open>LoaderBinding s\<close>: the text \<open>s\<close> that \<open>fmt\<close> returns for \<^verbatim>\<open>{name} = {init}\<close>;
  \<^item> \<open>EntryPoints n\<close>: the functions \<open>load_document\<close>, \<open>load_document_by_string\<close> and
    \<open>load_document_by_yaml\<close>, each of which calls \<open>_document_load\<close> with the loader \<open>n\<close>.
\<close>

datatype stmt =
    FileHeader
  | Copyright string
  | SupportCode
  | ParserInfo string
  | ClassHeader string string
  | DocString string
  | PassBody
  | InitMethod "init_param list"
  | FieldInits "field_init list"
  | FromDocHeader string
  | ClassCheck string
  | LoadField bool string string string
  | IdDefault string opt_stmt
  | UnknownFields string string
  | ReturnCls "string list"
  | SaveHeader
  | SaveClass string
  | SaveUriField string string string bool "int option"
  | SaveField string string string
  | SaveTop
  | ReturnR
  | Attrs "string list"
  | Newlines
  | VocabOpen
  | VocabEntry string string
  | VocabClose
  | RVocabOpen
  | RVocabEntry string string
  | RVocabClose
  | LoaderBinding string
  | EntryPoints string

text \<open>
  The state of a \<open>PythonCodeGen\<close> object.  \<open>collected_types\<close> and \<open>vocab\<close> are the two
  tables of the base class \<open>CodeGenBase\<close>: dictionaries, kept as association lists in
  insertion order.
\<close>

record codegen =
  out :: "stmt list"
  current_class_is_abstract :: bool
  serializer :: "stmt list"
  idfield :: string
  copyright :: "string option"
  parser_info :: string
  collected_types :: "(string \<times> TypeDef) list"
  vocab :: "(string \<times> string) list"

definition new_codegen :: "string option \<Rightarrow> string \<Rightarrow> codegen" where
  "new_codegen c p = \<lparr>out = [], current_class_is_abstract = False, serializer = [],
     idfield = [], copyright = c, parser_info = p, collected_types = [], vocab = []\<rparr>"

text \<open>
  Modelled from the spec: \<open>declare_type\<close> is a method of \<open>CodeGenBase\<close> (codegen_base.py,
  not part of the sources at hand).  The spec (4.1): intern returns the existing
  descriptor if one with the same name already exists, otherwise stores and returns the
  new one; the entries stay in first-seen order and are never removed or changed.
\<close>

definition declare_type :: "TypeDef \<Rightarrow> codegen \<Rightarrow> TypeDef \<times> codegen" where
  "declare_type t g =
     (case map_of (collected_types g) (name t) of
        Some t' \<Rightarrow> (t', g)
      | None \<Rightarrow> (t, g\<lparr>collected_types := collected_types g @ [(name t, t)]\<rparr>))"

text \<open>
  Modelled from the spec: \<open>add_vocab\<close> is a method of \<open>CodeGenBase\<close> as well.  The spec
  (4.2, 3): every enum symbol is registered into the vocabulary table, short name to
  full URI.
\<close>

definition add_vocab :: "string \<Rightarrow> string \<Rightarrow> codegen \<Rightarrow> codegen" where
  "add_vocab n uri g = g\<lparr>vocab := AList.update n uri (vocab g)\<rparr>"

subsection \<open>The primitive descriptors\<close>

definition string_type_def :: TypeDef where
  "string_type_def = mkTypeDef ''strtype'' ''_PrimitiveLoader(str)''"

definition int_type_def :: TypeDef where
  "int_type_def = mkTypeDef ''inttype'' ''_PrimitiveLoader(int)''"

definition float_type_def :: TypeDef where
  "float_type_def = mkTypeDef ''floattype'' ''_PrimitiveLoader(float)''"

definition bool_type_def :: TypeDef where
  "bool_type_def = mkTypeDef ''booltype'' ''_PrimitiveLoader(bool)''"

definition null_type_def :: TypeDef where
  "null_type_def = mkTypeDef ''None_type'' ''_PrimitiveLoader(type(None))''"

definition any_type_def :: TypeDef where
  "any_type_def = mkTypeDef ''Any_type'' ''_AnyLoader()''"

definition prims :: "(string \<times> TypeDef) list" where
  "prims =
    [(''http://www.w3.org/2001/XMLSchema#string'', string_type_def),
     (''http://www.w3.org/2001/XMLSchema#int'', int_type_def),
     (''http://www.w3.org/2001/XMLSchema#long'', int_type_def),
     (''http://www.w3.org/2001/XMLSchema#float'', float_type_def),
     (''http://www.w3.org/2001/XMLSchema#double'', float_type_def),
     (''http://www.w3.org/2001/XMLSchema#boolean'', bool_type_def),
     (''https://w3id.org/cwl/salad#null'', null_type_def),
     (''https://w3id.org/cwl/salad#Any'', any_type_def),
     (''string'', string_type_def),
     (''int'', int_type_def),
     (''long'', int_type_def),
     (''float'', float_type_def),
     (''double'', float_type_def),
     (''boolean'', bool_type_def),
     (''null'', null_type_def),
     (''Any'', any_type_def)]"

subsection \<open>safe_name and prologue\<close>

definition safe_name :: "schema_module \<Rightarrow> string \<Rightarrow> string" where
  "safe_name sch n =
     (let avn = avro_field_name sch n;
          avn = (if startswith avn ''anon.'' then drop 5 avn else avn)
      in if avn \<in> {''class'', ''in''} then avn @ ''_'' else avn)"

definition prologue :: "codegen \<Rightarrow> codegen" where
  "prologue g =
     (let g = g\<lparr>out := out g @ [FileHeader]\<rparr>;
          g = (case copyright g of
                 None \<Rightarrow> g
               | Some c \<Rightarrow> if c = [] then g else g\<lparr>out := out g @ [Copyright c]\<rparr>);
          g = g\<lparr>out := out g @ [SupportCode, Newlines, ParserInfo (parser_info g)]\<rparr>
      in fold (\<lambda>primative g. snd (declare_type primative g)) (map snd prims) g)"

subsection \<open>type_loader\<close>

text \<open>
  A type declaration is a string, a list, or a mapping.  Of a mapping the source reads
  the keys \<open>type\<close>, \<open>items\<close>, \<open>symbols\<close>, \<open>name\<close> and \<open>abstract\<close>; a key may be missing,
  and subscripting a missing key raises \<open>KeyError\<close>.
\<close>

datatype type_declaration =
    DeclStr string
  | DeclSeq "type_declaration list"
  | DeclMap "string option" "type_declaration option" "string list option"
      "string option" "bool option"

datatype error = SchemaException string | KeyError string | Exception string

text \<open>
  The descriptors \<open>type_loader\<close> constructs, one definition per \<open>TypeDef(...)\<close> expression
  of the source, and the tuples of type tags and names it tests membership in.
\<close>

definition union_type_def :: "string list \<Rightarrow> TypeDef" where
  "union_type_def sub_names =
     mkTypeDef (''union_of_'' @ join ''_or_'' sub_names)
       (''_UnionLoader(('' @ join '', '' sub_names @ '',))'')"

definition array_type_def :: "TypeDef \<Rightarrow> TypeDef" where
  "array_type_def i = mkTypeDef (''array_of_'' @ name i) (''_ArrayLoader('' @ name i @ '')'')"

definition enum_type_def :: "schema_module \<Rightarrow> string \<Rightarrow> string list \<Rightarrow> TypeDef" where
  "enum_type_def sch n ss =
     mkTypeDef (safe_name sch n @ ''Loader'')
       (''_EnumLoader(('' @ dq @ join (dq @ '', '' @ dq) (map (safe_name sch) ss) @ dq @ '',))'')"

definition record_type_def :: "schema_module \<Rightarrow> string \<Rightarrow> bool \<Rightarrow> TypeDef" where
  "record_type_def sch n ab =
     (mkTypeDef (safe_name sch n @ ''Loader'') (''_RecordLoader('' @ safe_name sch n @ '')''))
       \<lparr>abstract := ab\<rparr>"

definition expression_type_def :: "schema_module \<Rightarrow> string \<Rightarrow> TypeDef" where
  "expression_type_def sch s = mkTypeDef (safe_name sch s @ ''Loader'') ''_ExpressionLoader(str)''"

definition array_tags :: "string set" where
  "array_tags = {''array'', ''https://w3id.org/cwl/salad#array''}"

definition enum_tags :: "string set" where
  "enum_tags = {''enum'', ''https://w3id.org/cwl/salad#enum''}"

definition record_tags :: "string set" where
  "record_tags = {''record'', ''https://w3id.org/cwl/salad#record''}"

definition expression_names :: "string set" where
  "expression_names = {''Expression'', ''https://w3id.org/cwl/cwl#Expression''}"

fun type_loader ::
    "schema_module \<Rightarrow> type_declaration \<Rightarrow> codegen \<Rightarrow> error + TypeDef \<times> codegen"
  and type_loader_seq ::
    "schema_module \<Rightarrow> type_declaration list \<Rightarrow> codegen \<Rightarrow> error + TypeDef list \<times> codegen"
  where
  "type_loader sch (DeclSeq ds) g =
     (case type_loader_seq sch ds g of
        Inl e \<Rightarrow> Inl e
      | Inr (ts, g') \<Rightarrow>
          (let sub_names = fromkeys (map name ts)
           in Inr (declare_type (union_type_def sub_names) g')))"
| "type_loader sch (DeclMap ty its syms nm ab) g =
     (case ty of
        None \<Rightarrow> Inl (KeyError ''type'')
      | Some t \<Rightarrow>
          if t \<in> array_tags then
            (case its of
               None \<Rightarrow> Inl (KeyError ''items'')
             | Some d \<Rightarrow>
                 (case type_loader sch d g of
                    Inl e \<Rightarrow> Inl e
                  | Inr (i, g') \<Rightarrow> Inr (declare_type (array_type_def i) g')))
          else if t \<in> enum_tags then
            (case syms of
               None \<Rightarrow> Inl (KeyError ''symbols'')
             | Some ss \<Rightarrow>
                 (let g' = fold (\<lambda>sym g. add_vocab (shortname sch sym) sym g) ss g
                  in case nm of
                       None \<Rightarrow> Inl (KeyError ''name'')
                     | Some n \<Rightarrow> Inr (declare_type (enum_type_def sch n ss) g')))
          else if t \<in> record_tags then
            (case nm of
               None \<Rightarrow> Inl (KeyError ''name'')
             | Some n \<Rightarrow>
                 Inr (declare_type
                   (record_type_def sch n (case ab of None \<Rightarrow> False | Some b \<Rightarrow> b)) g))
          else Inl (SchemaException (''wft '' @ t)))"
| "type_loader sch (DeclStr s) g =
     (case map_of prims s of
        Some p \<Rightarrow> Inr (p, g)
      | None \<Rightarrow>
          if s \<in> expression_names then Inr (declare_type (expression_type_def sch s) g)
          else
            (case map_of (collected_types g) (safe_name sch s @ ''Loader'') of
               None \<Rightarrow> Inl (KeyError (safe_name sch s @ ''Loader''))
             | Some t \<Rightarrow> Inr (t, g)))"
| "type_loader_seq sch [] g = Inr ([], g)"
| "type_loader_seq sch (d # ds) g =
     (case type_loader sch d g of
        Inl e \<Rightarrow> Inl e
      | Inr (t, g') \<Rightarrow>
          (case type_loader_seq sch ds g' of
             Inl e \<Rightarrow> Inl e
           | Inr (ts, g'') \<Rightarrow> Inr (t # ts, g'')))"

subsection \<open>begin_class, declare_field, declare_id_field, end_class\<close>

text \<open>
  \<open>optional_fields\<close> is a Python set.  \<open>doc\<close> is written when it is a non-empty string.
  The write of the assignments of \<open>__init__\<close> and of the head of \<open>fromDoc\<close> is one call
  in the source; here it is the two items \<open>FieldInits\<close> and \<open>FromDocHeader\<close>.
\<close>

definition begin_class ::
    "schema_module \<Rightarrow> string \<Rightarrow> string list \<Rightarrow> string \<Rightarrow> bool \<Rightarrow> string list \<Rightarrow> string
       \<Rightarrow> string set \<Rightarrow> codegen \<Rightarrow> codegen" where
  "begin_class sch classname extends doc abstr field_names idf optional_fields g =
     (let classname = safe_name sch classname;
          ext = (if extends \<noteq> [] then join '', '' (map (safe_name sch) extends)
                 else ''Savable'');
          g = g\<lparr>out := out g @ [ClassHeader classname ext]\<rparr>;
          g = (if doc \<noteq> [] then g\<lparr>out := out g @ [DocString doc]\<rparr> else g);
          g = g\<lparr>serializer := []\<rparr>;
          g = g\<lparr>current_class_is_abstract := abstr\<rparr>
      in if current_class_is_abstract g then g\<lparr>out := out g @ [PassBody]\<rparr>
         else
           (let required_field_names = filter (\<lambda>f. f \<notin> optional_fields) field_names;
                optional_field_names = filter (\<lambda>f. f \<in> optional_fields) field_names;
                safe_inits =
                  map (\<lambda>f. Required (safe_name sch f))
                    (filter (\<lambda>f. f \<noteq> ''class'') required_field_names)
                  @ map (\<lambda>f. Optional (safe_name sch f))
                    (filter (\<lambda>f. f \<noteq> ''class'') optional_field_names);
                g = g\<lparr>out := out g @ [InitMethod safe_inits]\<rparr>;
                field_inits =
                  map (\<lambda>n. if n = ''class'' then SelfClass classname
                            else SelfField (safe_name sch n)) field_names;
                g = g\<lparr>out := out g @ [FieldInits field_inits, FromDocHeader classname]\<rparr>;
                g = g\<lparr>idfield := idf\<rparr>;
                g = g\<lparr>serializer := serializer g @ [SaveHeader]\<rparr>
            in if ''class'' \<in> set field_names then
                 g\<lparr>out := out g @ [ClassCheck classname],
                   serializer := serializer g @ [SaveClass classname]\<rparr>
               else g))"

text \<open>
  \<open>s.strip()\<close> removes the white space at both ends; of the characters that \<open>str.isspace\<close>
  accepts, the ASCII ones are modelled (codes 9 to 13, 28 to 31 and 32).
\<close>

definition is_space :: "char \<Rightarrow> bool" where
  "is_space c = (let n = (of_char c :: nat) in (9 \<le> n \<and> n \<le> 13) \<or> (28 \<le> n \<and> n \<le> 32))"

definition strip :: "string \<Rightarrow> string" where
  "strip s = rev (dropWhile is_space (rev (dropWhile is_space s)))"

definition declare_field ::
    "schema_module \<Rightarrow> string \<Rightarrow> TypeDef \<Rightarrow> string option \<Rightarrow> bool \<Rightarrow> codegen \<Rightarrow> codegen" where
  "declare_field sch nm fieldtype doc optional g =
     (if current_class_is_abstract g then g
      else if shortname sch nm = ''class'' then g
      else
        (let g = g\<lparr>out := out g @
                   [LoadField optional (safe_name sch nm) (shortname sch nm) (name fieldtype)]\<rparr>;
             baseurl = (if nm = idfield g \<or> idfield g = [] then ''base_url''
                        else ''self.'' @ safe_name sch (idfield g))
         in if is_uri fieldtype then
              g\<lparr>serializer := serializer g @
                 [SaveUriField (safe_name sch nm) (strip (shortname sch nm)) baseurl
                    (scoped_id fieldtype) (ref_scope fieldtype)]\<rparr>
            else
              g\<lparr>serializer := serializer g @
                 [SaveField (safe_name sch nm) (shortname sch nm) baseurl]\<rparr>))"

definition declare_id_field ::
    "schema_module \<Rightarrow> string \<Rightarrow> TypeDef \<Rightarrow> string option \<Rightarrow> bool \<Rightarrow> string option
       \<Rightarrow> codegen \<Rightarrow> codegen" where
  "declare_id_field sch nm fieldtype doc optional subscope g =
     (if current_class_is_abstract g then g
      else
        (let g = declare_field sch nm fieldtype doc True g;
             opt = (if optional then BlankNode (safe_name sch nm)
                    else RaiseMissing (shortname sch nm));
             nm = (case subscope of None \<Rightarrow> nm | Some sub \<Rightarrow> nm @ sub)
         in g\<lparr>out := out g @ [IdDefault (safe_name sch nm) opt]\<rparr>))"

definition end_class :: "schema_module \<Rightarrow> string \<Rightarrow> string list \<Rightarrow> codegen \<Rightarrow> codegen" where
  "end_class sch classname field_names g =
     (if current_class_is_abstract g then g
      else
        (let g = g\<lparr>out := out g @
                   [UnknownFields (join '', '' (map (\<lambda>f. bq @ f @ bq) field_names))
                      (safe_name sch classname)]\<rparr>;
             g = g\<lparr>serializer := serializer g @ [SaveTop]\<rparr>;
             g = g\<lparr>serializer := serializer g @ [ReturnR]\<rparr>;
             g = g\<lparr>serializer := serializer g @ [Attrs field_names]\<rparr>;
             safe_init_fields = map (safe_name sch) (filter (\<lambda>f. f \<noteq> ''class'') field_names);
             g = g\<lparr>out := out g @ [ReturnCls safe_init_fields]\<rparr>;
             g = g\<lparr>out := out g @ serializer g\<rparr>
         in g\<lparr>out := out g @ [Newlines]\<rparr>))"

subsection \<open>The field-loader wrappers\<close>

text \<open>
  Each wrapper constructs a descriptor and passes it to \<open>declare_type\<close>.  The descriptor
  constructed, the \<open>TypeDef(...)\<close> expression of the source, has a definition of its own.
\<close>

definition uri_type_def :: "TypeDef \<Rightarrow> bool \<Rightarrow> bool \<Rightarrow> int option \<Rightarrow> TypeDef" where
  "uri_type_def inner sc vocab_term rs =
     \<lparr>name = ''uri_'' @ name inner @ ''_'' @ str_bool sc @ ''_'' @ str_bool vocab_term
              @ ''_'' @ str_opt_int rs,
      init = ''_URILoader('' @ name inner @ '', '' @ str_bool sc @ '', '' @ str_bool vocab_term
              @ '', '' @ str_opt_int rs @ '')'',
      is_uri = True, scoped_id = sc, ref_scope = rs, abstract = False\<rparr>"

definition uri_loader :: "TypeDef \<Rightarrow> bool \<Rightarrow> bool \<Rightarrow> int option \<Rightarrow> codegen \<Rightarrow> TypeDef \<times> codegen" where
  "uri_loader inner sc vocab_term rs g = declare_type (uri_type_def inner sc vocab_term rs) g"







subsection \<open>fmt\<close>

text \<open>
  \<open>fmt(text, indent)\<close> raises when the module \<open>black\<close> could not be imported; otherwise it
  returns \<open>textwrap.indent(black.format_str(text, mode), " " * indent)\<close>, where the mode has
  the line length \<open>88 - indent\<close>.  Both libraries are outside the repository.  \<open>black\<close> is
  given by its \<open>format_str\<close>, a function of the text and the line length that returns the
  formatted text or raises (on text that is not Python), or is \<open>None\<close> when the import
  failed; \<open>textwrap.indent\<close> is a function of the text and the prefix.
\<close>

record formatting =
  black :: "(string \<Rightarrow> int \<Rightarrow> error + string) option"
  textwrap_indent :: "string \<Rightarrow> string \<Rightarrow> string"

definition fmt :: "formatting \<Rightarrow> string \<Rightarrow> nat \<Rightarrow> error + string" where
  "fmt fm text indent =
     (case black fm of
        None \<Rightarrow>
          Inl (Exception (''Must install '' @ sq @ ''black'' @ sq
            @ '' to use the Python code generator. ''
            @ ''If installing schema-salad via pip, try '' @ bq
            @ ''pip install schema-salad[pycodegen]'' @ bq @ ''.''))
      | Some format_str \<Rightarrow>
          (case format_str text (88 - int indent) of
             Inl e \<Rightarrow> Inl e
           | Inr formatted \<Rightarrow> Inr (textwrap_indent fm formatted (replicate indent CHR '' ''))))"

subsection \<open>epilogue\<close>

text \<open>\<open>self.vocab[k]\<close> for the keys \<open>k\<close> of \<open>sorted(self.vocab.keys())\<close>.\<close>

definition vocab_items :: "(string \<times> string) list \<Rightarrow> (string \<times> string) list" where
  "vocab_items v =
     concat (map (\<lambda>k. case map_of v k of None \<Rightarrow> [] | Some uri \<Rightarrow> [(k, uri)])
       (sort (map fst v)))"

text \<open>
  The loop over the catalog:
  \<^verbatim>\<open>for _, collected_type in self.collected_types.items():\<close>
  \<^verbatim>\<open>    if not collected_type.abstract:\<close>
  \<^verbatim>\<open>        self.out.write(fmt(f"{collected_type.name} = {collected_type.init}\n", 0))\<close>
  An exception of \<open>fmt\<close> leaves the loop and \<open>epilogue\<close>; the result is then the
  exception alone.
\<close>

definition binding_text :: "TypeDef \<Rightarrow> string" where
  "binding_text collected_type = name collected_type @ '' = '' @ init collected_type @ [CHR 0x0A]"

fun write_bindings :: "formatting \<Rightarrow> TypeDef list \<Rightarrow> codegen \<Rightarrow> error + codegen" where
  "write_bindings fm [] g = Inr g"
| "write_bindings fm (collected_type # ts) g =
     (if \<not> abstract collected_type then
        (case fmt fm (binding_text collected_type) 0 of
           Inl e \<Rightarrow> Inl e
         | Inr s \<Rightarrow> write_bindings fm ts (g\<lparr>out := out g @ [LoaderBinding s]\<rparr>))
      else write_bindings fm ts g)"

definition epilogue :: "formatting \<Rightarrow> TypeDef \<Rightarrow> codegen \<Rightarrow> error + codegen" where
  "epilogue fm root_loader g =
     (let g = g\<lparr>out := out g @ [VocabOpen]\<rparr>;
          g = g\<lparr>out := out g @ map (\<lambda>(k, uri). VocabEntry k uri) (vocab_items (vocab g))\<rparr>;
          g = g\<lparr>out := out g @ [VocabClose]\<rparr>;
          g = g\<lparr>out := out g @ [RVocabOpen]\<rparr>;
          g = g\<lparr>out := out g @ map (\<lambda>(k, uri). RVocabEntry uri k) (vocab_items (vocab g))\<rparr>;
          g = g\<lparr>out := out g @ [RVocabClose]\<rparr>
      in case write_bindings fm (map snd (collected_types g)) g of
           Inl e \<Rightarrow> Inl e
         | Inr g \<Rightarrow>
             (let g = g\<lparr>out := out g @ [Newlines]\<rparr>
              in Inr (g\<lparr>out := out g @ [EntryPoints (name root_loader)]\<rparr>)))"

section \<open>What the generated fromDoc does\<close>

text \<open>
  The templates are Python source.  To state what the generated \<open>fromDoc\<close> does when it
  runs, each template that makes up its body gets the meaning of its Python text, over
  the local variables of the call.  The runtime library is outside the generator:
  \<open>load_field\<close> (which returns a value or raises a \<open>ValidationException\<close>), \<open>expand_url\<close>
  and the string of \<open>str(_uuid__.uuid4())\<close> drawn in this call are parameters.
\<close>

datatype pyval =
    PyNone
  | PyBool bool
  | PyStr string
  | PyList "pyval list"
  | PyDict "(string \<times> pyval) list"
  | PyExc string "pyval list"
  | PyClass string
  | PyObj string "(string \<times> pyval) list"

text \<open>
  \<open>PyExc msg children\<close> is a \<open>ValidationException\<close> object (its \<open>SourceLine\<close> is not kept),
  \<open>PyClass c\<close> the class \<open>c\<close>, and \<open>PyObj c kwargs\<close> the call \<open>c(**kwargs)\<close>.
  A run ends in a fault when a \<open>ValidationException\<close> propagates out of \<open>fromDoc\<close>, when
  a local variable is read before it is bound, when a name is read that is bound nowhere
  (\<open>NameError\<close>), when a call does not fit the signature (\<open>TypeError\<close>, with the name of
  the argument), or when it leaves what is modelled here (\<open>Unmodelled\<close>: an operation on a
  value of another type than the template expects, or text that Python does not compile).
\<close>

datatype fault =
    ValidationException string "pyval list"
  | UnboundLocalError string
  | NameError string
  | TypeError string
  | Unmodelled

record runtime =
  load_field :: "pyval \<Rightarrow> string \<Rightarrow> pyval \<Rightarrow> pyval \<Rightarrow> pyval + pyval"
  expand_url :: "string \<Rightarrow> pyval \<Rightarrow> string"
  uuid4 :: string

text \<open>
  The local variables of one call, and the calls of \<open>load_field\<close> made so far: the loader's
  name, the value, the base URI and the loading options of each.
\<close>

record frame =
  locals :: "string \<Rightarrow> pyval option"
  calls :: "(string \<times> pyval \<times> pyval \<times> pyval) list"

datatype flow = Next frame | Returned pyval

definition lookup :: "frame \<Rightarrow> string \<Rightarrow> fault + pyval" where
  "lookup fr x = (case locals fr x of None \<Rightarrow> Inl (UnboundLocalError x) | Some v \<Rightarrow> Inr v)"

definition assign :: "string \<Rightarrow> pyval \<Rightarrow> frame \<Rightarrow> frame" where
  "assign x v fr = fr\<lparr>locals := (locals fr)(x \<mapsto> v)\<rparr>"

definition unbind :: "string \<Rightarrow> frame \<Rightarrow> frame" where
  "unbind x fr = fr\<lparr>locals := (locals fr)(x := None)\<rparr>"

definition truthy :: "pyval \<Rightarrow> bool" where
  "truthy v = (case v of PyNone \<Rightarrow> False | PyBool b \<Rightarrow> b | PyStr s \<Rightarrow> s \<noteq> []
               | PyList xs \<Rightarrow> xs \<noteq> [] | PyDict kvs \<Rightarrow> kvs \<noteq> [] | _ \<Rightarrow> True)"

text \<open>\<open>d.get(k)\<close> on a dictionary.\<close>

definition dict_get :: "(string \<times> pyval) list \<Rightarrow> string \<Rightarrow> pyval" where
  "dict_get d k = (case map_of d k of None \<Rightarrow> PyNone | Some v \<Rightarrow> v)"

text \<open>
  The head of \<open>fromDoc\<close>:
  \<^verbatim>\<open>_doc = copy.copy(doc)\<close>, the copy of the line and column data, \<^verbatim>\<open>_errors__ = []\<close>.
\<close>

definition exec_header :: "frame \<Rightarrow> fault + flow" where
  "exec_header fr =
     (case lookup fr ''doc'' of
        Inl f \<Rightarrow> Inl f
      | Inr d \<Rightarrow> Inr (Next (assign ''_errors__'' (PyList []) (assign ''_doc'' d fr))))"

text \<open>
  \<^verbatim>\<open>if _doc.get("class") != "{class_}": raise ValidationException("Not a {class_}")\<close>
\<close>

definition exec_class_check :: "string \<Rightarrow> frame \<Rightarrow> fault + flow" where
  "exec_class_check c fr =
     (case lookup fr ''_doc'' of
        Inl f \<Rightarrow> Inl f
      | Inr (PyDict d) \<Rightarrow>
          if dict_get d ''class'' \<noteq> PyStr c then Inl (ValidationException (''Not a '' @ c) [])
          else Inr (Next fr)
      | Inr _ \<Rightarrow> Inl Unmodelled)"

text \<open>
  The field template, with \<open>spc\<close> the extra indentation of an optional field:
  \<^verbatim>\<open>if "{fieldname}" in _doc:\<close> (optional fields only)
  \<^verbatim>\<open>    try:\<close>
  \<^verbatim>\<open>        {safename} = load_field(_doc.get("{fieldname}"), {fieldtype}, baseuri, loadingOptions)\<close>
  \<^verbatim>\<open>    except ValidationException as e:\<close>
  \<^verbatim>\<open>        _errors__.append(ValidationException("the `{fieldname}` field is not valid because:",\<close>
  \<^verbatim>\<open>            SourceLine(_doc, "{fieldname}", str), [e]))\<close>
  \<^verbatim>\<open>else:\<close> (optional fields only)
  \<^verbatim>\<open>    {safename} = None\<close>
  Python unbinds \<open>e\<close> at the end of the \<open>except\<close> clause.  \<open>{fieldtype}\<close> is the name of a
  loader bound at module level.
\<close>

definition field_error :: "string \<Rightarrow> pyval \<Rightarrow> pyval" where
  "field_error fieldname e =
     PyExc (''the '' @ bq @ fieldname @ bq @ '' field is not valid because:'') [e]"

definition exec_load_field ::
    "runtime \<Rightarrow> bool \<Rightarrow> string \<Rightarrow> string \<Rightarrow> string \<Rightarrow> frame \<Rightarrow> fault + flow" where
  "exec_load_field rt optional safename fieldname fieldtype fr =
     (case lookup fr ''_doc'' of
        Inl f \<Rightarrow> Inl f
      | Inr (PyDict d) \<Rightarrow>
          if optional \<and> fieldname \<notin> fst ` set d then Inr (Next (assign safename PyNone fr))
          else
            (case lookup fr ''baseuri'' of
               Inl f \<Rightarrow> Inl f
             | Inr b \<Rightarrow>
                 (case lookup fr ''loadingOptions'' of
                    Inl f \<Rightarrow> Inl f
                  | Inr lo \<Rightarrow>
                      (let fr = fr\<lparr>calls := calls fr @ [(fieldtype, dict_get d fieldname, b, lo)]\<rparr>
                       in case load_field rt (dict_get d fieldname) fieldtype b lo of
                            Inr v \<Rightarrow> Inr (Next (assign safename v fr))
                          | Inl e \<Rightarrow>
                              (case lookup (assign ''e'' e fr) ''_errors__'' of
                                 Inl f \<Rightarrow> Inl f
                               | Inr (PyList es) \<Rightarrow>
                                   Inr (Next (unbind ''e''
                                     (assign ''_errors__'' (PyList (es @ [field_error fieldname e]))
                                        (assign ''e'' e fr))))
                               | Inr _ \<Rightarrow> Inl Unmodelled))))
      | Inr _ \<Rightarrow> Inl Unmodelled)"

text \<open>
  The identifier template:
  \<^verbatim>\<open>__original_{safename}_is_none = {safename} is None\<close>
  \<^verbatim>\<open>if {safename} is None:\<close>
  \<^verbatim>\<open>    if docRoot is not None:\<close>
  \<^verbatim>\<open>        {safename} = docRoot\<close>
  \<^verbatim>\<open>    else:\<close>
  \<^verbatim>\<open>        {opt}\<close>
  \<^verbatim>\<open>if not __original_{safename}_is_none:\<close>
  \<^verbatim>\<open>    baseuri = {safename}\<close>
\<close>

definition exec_opt :: "runtime \<Rightarrow> opt_stmt \<Rightarrow> frame \<Rightarrow> fault + frame" where
  "exec_opt rt opt fr =
     (case opt of
        BlankNode x \<Rightarrow> Inr (assign x (PyStr (''_:'' @ uuid4 rt)) fr)
      | RaiseMissing fieldname \<Rightarrow> Inl (ValidationException (''Missing '' @ fieldname) []))"

definition original_is_none :: "string \<Rightarrow> string" where
  "original_is_none safename = ''__original_'' @ safename @ ''_is_none''"

definition exec_id_default :: "runtime \<Rightarrow> string \<Rightarrow> opt_stmt \<Rightarrow> frame \<Rightarrow> fault + flow" where
  "exec_id_default rt safename opt fr =
     (case lookup fr safename of
        Inl f \<Rightarrow> Inl f
      | Inr v \<Rightarrow>
          (let fr = assign (original_is_none safename) (PyBool (v = PyNone)) fr
           in case lookup fr safename of
                Inl f \<Rightarrow> Inl f
              | Inr v \<Rightarrow>
                  (case (if v = PyNone then
                           (case lookup fr ''docRoot'' of
                              Inl f \<Rightarrow> Inl f
                            | Inr dr \<Rightarrow> if dr \<noteq> PyNone then Inr (assign safename dr fr)
                                       else exec_opt rt opt fr)
                         else Inr fr) of
                     Inl f \<Rightarrow> Inl f
                   | Inr fr \<Rightarrow>
                       (case lookup fr (original_is_none safename) of
                          Inl f \<Rightarrow> Inl f
                        | Inr orig \<Rightarrow>
                            if \<not> truthy orig then
                              (case lookup fr safename of
                                 Inl f \<Rightarrow> Inl f
                               | Inr w \<Rightarrow> Inr (Next (assign ''baseuri'' w fr)))
                            else Inr (Next fr)))))"

text \<open>
  The template at the end of \<open>fromDoc\<close>:
  \<^verbatim>\<open>extension_fields: Dict[str, Any] = {}\<close>
  \<^verbatim>\<open>for k in _doc.keys():\<close>
  \<^verbatim>\<open>    if k not in cls.attrs:\<close>
  \<^verbatim>\<open>        if ":" in k:\<close>
  \<^verbatim>\<open>            ex = expand_url(k, "", loadingOptions, scoped_id=False, vocab_term=False)\<close>
  \<^verbatim>\<open>            extension_fields[ex] = _doc[k]\<close>
  \<^verbatim>\<open>        else:\<close>
  \<^verbatim>\<open>            _errors__.append(ValidationException(\<close>
  \<^verbatim>\<open>                "invalid field `{}`, expected one of: {attrstr}".format(k), SourceLine(_doc, k, str)))\<close>
  \<^verbatim>\<open>            break\<close>
  \<^verbatim>\<open>if _errors__:\<close>
  \<^verbatim>\<open>    raise ValidationException("Trying '{class_}'", None, _errors__)\<close>
  \<open>cls.attrs\<close> is the class attribute that \<open>end_class\<close> writes with the serializer,
  \<^verbatim>\<open>attrs = frozenset(["{'", "'.join(field_names)}"])\<close>: the field names, or the empty
  string alone when there are no field names.
\<close>

definition attrs_of_names :: "string list \<Rightarrow> string list" where
  "attrs_of_names field_names = (if field_names = [] then [[]] else field_names)"

definition unexpected_field :: "string \<Rightarrow> string \<Rightarrow> pyval" where
  "unexpected_field attrstr k =
     PyExc (''invalid field '' @ bq @ k @ bq @ '', expected one of: '' @ attrstr) []"

fun unknown_fields_loop ::
    "runtime \<Rightarrow> string list \<Rightarrow> string \<Rightarrow> string list \<Rightarrow> frame \<Rightarrow> fault + frame" where
  "unknown_fields_loop rt attrs attrstr [] fr = Inr fr"
| "unknown_fields_loop rt attrs attrstr (k # ks) fr =
     (let fr = assign ''k'' (PyStr k) fr
      in case lookup fr ''cls'' of
           Inl f \<Rightarrow> Inl f
         | Inr (PyClass c) \<Rightarrow>
             if k \<notin> set attrs then
               if CHR '':'' \<in> set k then
                 (case lookup fr ''loadingOptions'' of
                    Inl f \<Rightarrow> Inl f
                  | Inr lo \<Rightarrow>
                      (let fr = assign ''ex'' (PyStr (expand_url rt k lo)) fr
                       in case lookup fr ''_doc'' of
                            Inl f \<Rightarrow> Inl f
                          | Inr (PyDict d) \<Rightarrow>
                              (case lookup fr ''extension_fields'' of
                                 Inl f \<Rightarrow> Inl f
                               | Inr (PyDict ef) \<Rightarrow>
                                   unknown_fields_loop rt attrs attrstr ks
                                     (assign ''extension_fields''
                                        (PyDict (AList.update (expand_url rt k lo) (dict_get d k) ef)) fr)
                               | Inr _ \<Rightarrow> Inl Unmodelled)
                          | Inr _ \<Rightarrow> Inl Unmodelled))
               else
                 (case lookup fr ''_errors__'' of
                    Inl f \<Rightarrow> Inl f
                  | Inr (PyList es) \<Rightarrow>
                      Inr (assign ''_errors__'' (PyList (es @ [unexpected_field attrstr k])) fr)
                  | Inr _ \<Rightarrow> Inl Unmodelled)
             else unknown_fields_loop rt attrs attrstr ks fr
         | Inr _ \<Rightarrow> Inl Unmodelled)"

definition exec_unknown_fields ::
    "runtime \<Rightarrow> string list \<Rightarrow> string \<Rightarrow> string \<Rightarrow> frame \<Rightarrow> fault + flow" where
  "exec_unknown_fields rt attrs attrstr cname fr =
     (let fr = assign ''extension_fields'' (PyDict []) fr
      in case lookup fr ''_doc'' of
           Inl f \<Rightarrow> Inl f
         | Inr (PyDict d) \<Rightarrow>
             (case unknown_fields_loop rt attrs attrstr (map fst d) fr of
                Inl f \<Rightarrow> Inl f
              | Inr fr \<Rightarrow>
                  (case lookup fr ''_errors__'' of
                     Inl f \<Rightarrow> Inl f
                   | Inr (PyList es) \<Rightarrow>
                       if es \<noteq> [] then
                         Inl (ValidationException (''Trying '' @ sq @ cname @ sq) es)
                       else Inr (Next fr)
                   | Inr _ \<Rightarrow> Inl Unmodelled))
         | Inr _ \<Rightarrow> Inl Unmodelled)"

text \<open>
  \<^verbatim>\<open>return cls({f}={f}, ..., extension_fields=extension_fields, loadingOptions=loadingOptions)\<close>
\<close>

fun lookup_all :: "frame \<Rightarrow> string list \<Rightarrow> fault + (string \<times> pyval) list" where
  "lookup_all fr [] = Inr []"
| "lookup_all fr (x # xs) =
     (case lookup fr x of
        Inl f \<Rightarrow> Inl f
      | Inr v \<Rightarrow> (case lookup_all fr xs of Inl f \<Rightarrow> Inl f | Inr kvs \<Rightarrow> Inr ((x, v) # kvs)))"

definition exec_return :: "string list \<Rightarrow> frame \<Rightarrow> fault + flow" where
  "exec_return safe_init_fields fr =
     (let kws = safe_init_fields @ [''extension_fields'', ''loadingOptions'']
      in if \<not> distinct kws then Inl Unmodelled
         else
           (case lookup fr ''cls'' of
              Inl f \<Rightarrow> Inl f
            | Inr (PyClass c) \<Rightarrow>
                (case lookup_all fr kws of
                   Inl f \<Rightarrow> Inl f
                 | Inr kwargs \<Rightarrow> Inr (Returned (PyObj c kwargs)))
            | Inr _ \<Rightarrow> Inl Unmodelled))"

text \<open>The statements of a \<open>fromDoc\<close> body; any other template is not part of one.\<close>

fun exec_stmt :: "runtime \<Rightarrow> string list \<Rightarrow> stmt \<Rightarrow> frame \<Rightarrow> fault + flow" where
  "exec_stmt rt attrs (FromDocHeader c) fr = exec_header fr"
| "exec_stmt rt attrs (ClassCheck c) fr = exec_class_check c fr"
| "exec_stmt rt attrs (LoadField optional safename fieldname fieldtype) fr =
     exec_load_field rt optional safename fieldname fieldtype fr"
| "exec_stmt rt attrs (IdDefault safename opt) fr = exec_id_default rt safename opt fr"
| "exec_stmt rt attrs (UnknownFields attrstr cname) fr =
     exec_unknown_fields rt attrs attrstr cname fr"
| "exec_stmt rt attrs (ReturnCls safe_init_fields) fr = exec_return safe_init_fields fr"
| "exec_stmt rt attrs _ fr = Inl Unmodelled"

fun exec_stmts :: "runtime \<Rightarrow> string list \<Rightarrow> stmt list \<Rightarrow> frame \<Rightarrow> fault + flow" where
  "exec_stmts rt attrs [] fr = Inr (Next fr)"
| "exec_stmts rt attrs (s # ss) fr =
     (case exec_stmt rt attrs s fr of
        Inl f \<Rightarrow> Inl f
      | Inr (Returned v) \<Rightarrow> Inr (Returned v)
      | Inr (Next fr') \<Rightarrow> exec_stmts rt attrs ss fr')"

text \<open>
  The body of \<open>fromDoc\<close> in the text of a class: from the head of \<open>fromDoc\<close> to the
  \<open>return\<close>.  The class attribute \<open>attrs\<close> is taken from the same text.
\<close>

fun upto_return :: "stmt list \<Rightarrow> stmt list" where
  "upto_return [] = []"
| "upto_return (ReturnCls fs # ss) = [ReturnCls fs]"
| "upto_return (s # ss) = s # upto_return ss"

fun fromDoc_body :: "stmt list \<Rightarrow> stmt list" where
  "fromDoc_body [] = []"
| "fromDoc_body (FromDocHeader c # ss) = FromDocHeader c # upto_return ss"
| "fromDoc_body (s # ss) = fromDoc_body ss"

fun class_attrs :: "stmt list \<Rightarrow> string list" where
  "class_attrs [] = []"
| "class_attrs (Attrs field_names # ss) = attrs_of_names field_names"
| "class_attrs (s # ss) = class_attrs ss"

text \<open>
  \<^verbatim>\<open>def fromDoc(cls, doc, baseuri, loadingOptions, docRoot=None)\<close>, called on the class
  whose text is given.
\<close>

definition fromDoc ::
    "runtime \<Rightarrow> stmt list \<Rightarrow> string \<Rightarrow> pyval \<Rightarrow> pyval \<Rightarrow> pyval \<Rightarrow> pyval \<Rightarrow> fault + flow" where
  "fromDoc rt class_text cls doc baseuri loadingOptions docRoot =
     exec_stmts rt (class_attrs class_text) (fromDoc_body class_text)
       \<lparr>locals = [''cls'' \<mapsto> PyClass cls, ''doc'' \<mapsto> doc, ''baseuri'' \<mapsto> baseuri,
                  ''loadingOptions'' \<mapsto> loadingOptions, ''docRoot'' \<mapsto> docRoot],
        calls = []\<rparr>"

subsection \<open>What the generated __init__ does\<close>

text \<open>
  \<^verbatim>\<open>def __init__(self, {required}: Any, ..., {optional}: Optional[Any] = None, ...,\<close>
  \<^verbatim>\<open>             extension_fields=None, loadingOptions=None) -> None:\<close>
  \<^verbatim>\<open>    if extension_fields: self.extension_fields = extension_fields\<close>
  \<^verbatim>\<open>    else: self.extension_fields = CommentedMap()\<close>
  \<^verbatim>\<open>    if loadingOptions: self.loadingOptions = loadingOptions\<close>
  \<^verbatim>\<open>    else: self.loadingOptions = LoadingOptions()\<close>
  followed by the assignments of the fields, \<^verbatim>\<open>self.class_ = "{classname}"\<close> or
  \<^verbatim>\<open>self.{name} = {name}\<close>.  The attributes of the object are kept as an association
  list.  \<open>CommentedMap()\<close> is the empty dictionary and \<open>LoadingOptions()\<close> an object of that
  class.  The call is by keywords, as \<open>fromDoc\<close> makes it: a keyword that names no parameter
  and a required parameter without a keyword raise \<open>TypeError\<close>; a parameter name that
  occurs twice does not compile.
\<close>

definition param_name :: "init_param \<Rightarrow> string" where
  "param_name p = (case p of Required n \<Rightarrow> n | Optional n \<Rightarrow> n)"

fun exec_field_inits ::
    "field_init list \<Rightarrow> (string \<Rightarrow> pyval option) \<Rightarrow> (string \<times> pyval) list
       \<Rightarrow> fault + (string \<times> pyval) list" where
  "exec_field_inits [] args self = Inr self"
| "exec_field_inits (SelfClass c # inits) args self =
     exec_field_inits inits args (AList.update ''class_'' (PyStr c) self)"
| "exec_field_inits (SelfField n # inits) args self =
     (case args n of
        None \<Rightarrow> Inl (NameError n)
      | Some v \<Rightarrow> exec_field_inits inits args (AList.update n v self))"

definition call_init ::
    "init_param list \<Rightarrow> field_init list \<Rightarrow> (string \<times> pyval) list
       \<Rightarrow> fault + (string \<times> pyval) list" where
  "call_init params inits kwargs =
     (let names = map param_name params @ [''extension_fields'', ''loadingOptions'']
      in if \<not> distinct (''self'' # names) then Inl Unmodelled
         else
           (case find (\<lambda>k. k \<notin> set names) (map fst kwargs) of
              Some k \<Rightarrow> Inl (TypeError k)
            | None \<Rightarrow>
                (case find (\<lambda>p. case p of Required n \<Rightarrow> n \<notin> fst ` set kwargs
                                  | Optional n \<Rightarrow> False) params of
                   Some p \<Rightarrow> Inl (TypeError (param_name p))
                 | None \<Rightarrow>
                     (let args = (\<lambda>n. if n \<in> set names then Some (dict_get kwargs n) else None);
                          ef = dict_get kwargs ''extension_fields'';
                          lo = dict_get kwargs ''loadingOptions'';
                          self = [(''extension_fields'', if truthy ef then ef else PyDict []),
                                  (''loadingOptions'',
                                   if truthy lo then lo else PyObj ''LoadingOptions'' [])]
                      in exec_field_inits inits args self))))"

text \<open>
  The call \<open>cls(**kwargs)\<close> on the class whose text is given: the attributes of the new
  object.
\<close>

fun class_init :: "stmt list \<Rightarrow> (init_param list \<times> field_init list) option" where
  "class_init [] = None"
| "class_init (InitMethod params # FieldInits inits # ss) = Some (params, inits)"
| "class_init (s # ss) = class_init ss"

definition construct :: "stmt list \<Rightarrow> (string \<times> pyval) list \<Rightarrow> fault + (string \<times> pyval) list" where
  "construct class_text kwargs =
     (case class_init class_text of
        None \<Rightarrow> Inl Unmodelled
      | Some (params, inits) \<Rightarrow> call_init params inits kwargs)"


section \<open>Notions used in the statements\<close>

text \<open>
  Every entry of the catalog is stored under the name of its descriptor.  All entries are
  made by \<open>declare_type\<close>, which keeps this.
\<close>

definition catalog_ok :: "codegen \<Rightarrow> bool" where
  "catalog_ok g = list_all (\<lambda>(k, t). name t = k) (collected_types g)"



text \<open>
  An instance of the two functions of the module \<open>schema\<close> for closed examples: on a name
  that is a plain identifier, both return the name unchanged.
\<close>

definition plain_names :: schema_module where
  "plain_names = \<lparr>avro_field_name = (\<lambda>s. s), shortname = (\<lambda>s. s)\<rparr>"

text \<open>The generator after \<open>prologue\<close>, which declares the primitive descriptors.\<close>

definition after_prologue :: codegen where
  "after_prologue = prologue (new_codegen None [])"

text \<open>
  A declaration with a hole, for the place of a declaration inside arrays and unions: the
  hole itself, the items of an array, or a member of a union between the members before
  and after it.  \<open>plug\<close> fills the hole.  \<open>reach\<close> is the state in which \<open>type_loader\<close>
  comes to the hole: it has resolved the members before it of every union on the way, and
  it gets there only through mappings whose type is an array tag.
\<close>

datatype enclosing =
    Hole
  | ItemsOf string "string list option" "string option" "bool option" enclosing
  | MemberOf "type_declaration list" enclosing "type_declaration list"

fun plug :: "enclosing \<Rightarrow> type_declaration \<Rightarrow> type_declaration" where
  "plug Hole d = d"
| "plug (ItemsOf tag syms nm ab c) d = DeclMap (Some tag) (Some (plug c d)) syms nm ab"
| "plug (MemberOf before c after) d = DeclSeq (before @ plug c d # after)"

fun reach :: "schema_module \<Rightarrow> enclosing \<Rightarrow> codegen \<Rightarrow> codegen option" where
  "reach sch Hole g = Some g"
| "reach sch (ItemsOf tag syms nm ab c) g = (if tag \<in> array_tags then reach sch c g else None)"
| "reach sch (MemberOf before c after) g =
     (case type_loader_seq sch before g of
        Inl e \<Rightarrow> None
      | Inr (ts, g') \<Rightarrow> reach sch c g')"

text \<open>
  Formatters for closed examples: one that returns the text as it is, as \<open>black\<close> does on
  text that is already formatted, and one for a system where \<open>black\<close> is not installed.
\<close>

definition plain_formatting :: formatting where
  "plain_formatting = \<lparr>black = Some (\<lambda>text line_length. Inr text),
                        textwrap_indent = (\<lambda>text prefix. prefix @ text)\<rparr>"

definition no_black :: formatting where
  "no_black = \<lparr>black = None, textwrap_indent = (\<lambda>text prefix. prefix @ text)\<rparr>"

text \<open>
  A formatter that refuses one text, as \<open>black\<close> refuses text that is not Python, and
  returns every other text as it is.
\<close>

definition refusing :: "string \<Rightarrow> formatting" where
  "refusing bad =
     \<lparr>black = Some (\<lambda>text line_length. if text = bad then Inl (Exception ''Cannot parse'')
                                       else Inr text),
      textwrap_indent = (\<lambda>text prefix. prefix @ text)\<rparr>"

text \<open>
  States for closed examples: after the prologue and the resolution of an abstract record
  \<open>Base\<close> and of an enum \<open>Color\<close> with the symbols \<open>red\<close> and \<open>green\<close>; and after the prologue
  and the resolution of the union with no member.
\<close>

definition enum_state :: codegen where
  "enum_state =
     (case type_loader plain_names (DeclMap (Some ''record'') None None (Some ''Base'') (Some True))
             after_prologue of
        Inl e \<Rightarrow> after_prologue
      | Inr (t, g) \<Rightarrow>
          (case type_loader plain_names
                  (DeclMap (Some ''enum'') None (Some [''red'', ''green'']) (Some ''Color'') None) g of
             Inl e \<Rightarrow> g
           | Inr (t, g') \<Rightarrow> g'))"

definition empty_union_state :: codegen where
  "empty_union_state =
     (case type_loader plain_names (DeclSeq []) after_prologue of
        Inl e \<Rightarrow> after_prologue
      | Inr (t, g) \<Rightarrow> g)"


section \<open>Notions used in the statements about fromDoc\<close>

text \<open>
  Modelled from the spec: the loop over the fields of a record is in the caller of the
  generator (codegen.py, not part of the sources at hand).  The spec (2): after the
  identifier field, each remaining field is declared in order.  A field is given by its
  name, its loader, its documentation and whether it is optional.
\<close>

definition declare_fields ::
    "schema_module \<Rightarrow> (string \<times> TypeDef \<times> string option \<times> bool) list \<Rightarrow> codegen \<Rightarrow> codegen" where
  "declare_fields sch flds g =
     fold (\<lambda>(nm, fieldtype, doc, optional). declare_field sch nm fieldtype doc optional) flds g"

text \<open>The field templates that \<open>declare_fields\<close> writes: none for a field named \<open>class\<close>.\<close>

definition field_loads ::
    "schema_module \<Rightarrow> (string \<times> TypeDef \<times> string option \<times> bool) list \<Rightarrow> stmt list" where
  "field_loads sch flds =
     map (\<lambda>(nm, fieldtype, doc, optional).
            LoadField optional (safe_name sch nm) (shortname sch nm) (name fieldtype))
       (filter (\<lambda>(nm, fieldtype, doc, optional). shortname sch nm \<noteq> ''class'') flds)"

text \<open>
  The local variables that the templates themselves read.  A field whose safe name is one
  of them would overwrite it; the statements below are about fields with other names.
\<close>

definition reserved :: "string set" where
  "reserved = {''_doc'', ''baseuri'', ''loadingOptions'', ''_errors__'', ''cls''}"

definition plain_loads :: "stmt list \<Rightarrow> bool" where
  "plain_loads ss =
     list_all (\<lambda>s. case s of LoadField optional safename fieldname fieldtype \<Rightarrow> safename \<notin> reserved
                    | _ \<Rightarrow> False) ss"

text \<open>
  A frame in which the document is the dictionary \<open>d\<close>, the base URI \<open>b\<close>, the loading
  options \<open>lo\<close>, the errors collected so far \<open>es\<close> and the class \<open>c\<close>.
\<close>

definition in_fromDoc ::
    "frame \<Rightarrow> (string \<times> pyval) list \<Rightarrow> pyval \<Rightarrow> pyval \<Rightarrow> pyval list \<Rightarrow> string \<Rightarrow> bool" where
  "in_fromDoc fr d b lo es c =
     (locals fr ''_doc'' = Some (PyDict d) \<and> locals fr ''baseuri'' = Some b
      \<and> locals fr ''loadingOptions'' = Some lo \<and> locals fr ''_errors__'' = Some (PyList es)
      \<and> locals fr ''cls'' = Some (PyClass c))"

text \<open>
  The fields of a list of field templates whose load is attempted and fails, each with
  the exception that \<open>load_field\<close> raises, in the order of the templates; and the calls of
  \<open>load_field\<close> that the templates make.
\<close>

fun failures ::
    "runtime \<Rightarrow> (string \<times> pyval) list \<Rightarrow> pyval \<Rightarrow> pyval \<Rightarrow> stmt list \<Rightarrow> (string \<times> pyval) list" where
  "failures rt d b lo [] = []"
| "failures rt d b lo (LoadField optional safename fieldname fieldtype # ss) =
     (if optional \<and> fieldname \<notin> fst ` set d then []
      else (case load_field rt (dict_get d fieldname) fieldtype b lo of
              Inl e \<Rightarrow> [(fieldname, e)]
            | Inr v \<Rightarrow> []))
     @ failures rt d b lo ss"
| "failures rt d b lo (s # ss) = failures rt d b lo ss"

fun load_calls ::
    "(string \<times> pyval) list \<Rightarrow> pyval \<Rightarrow> pyval \<Rightarrow> stmt list \<Rightarrow> (string \<times> pyval \<times> pyval \<times> pyval) list" where
  "load_calls d b lo [] = []"
| "load_calls d b lo (LoadField optional safename fieldname fieldtype # ss) =
     (if optional \<and> fieldname \<notin> fst ` set d then []
      else [(fieldtype, dict_get d fieldname, b, lo)])
     @ load_calls d b lo ss"
| "load_calls d b lo (s # ss) = load_calls d b lo ss"

text \<open>
  A key of the document that is not in \<open>cls.attrs\<close> and has no colon; the keys that are
  captured as extension fields, which are the undeclared keys before the first such key;
  and the dictionary of extension fields built from them.
\<close>

definition bare_unknown :: "string list \<Rightarrow> string \<Rightarrow> bool" where
  "bare_unknown attrs k = (k \<notin> set attrs \<and> CHR '':'' \<notin> set k)"

definition captured :: "string list \<Rightarrow> string list \<Rightarrow> string list" where
  "captured attrs ks =
     filter (\<lambda>k. k \<notin> set attrs) (takeWhile (\<lambda>k. \<not> bare_unknown attrs k) ks)"

definition unexpected :: "string list \<Rightarrow> string \<Rightarrow> string list \<Rightarrow> pyval list" where
  "unexpected attrs attrstr ks =
     (case find (bare_unknown attrs) ks of None \<Rightarrow> [] | Some k \<Rightarrow> [unexpected_field attrstr k])"

definition extension_of ::
    "runtime \<Rightarrow> (string \<times> pyval) list \<Rightarrow> pyval \<Rightarrow> string list \<Rightarrow> (string \<times> pyval) list
       \<Rightarrow> (string \<times> pyval) list" where
  "extension_of rt d lo ks ef =
     fold (\<lambda>k ef. AList.update (expand_url rt k lo) (dict_get d k) ef) ks ef"

text \<open>
  A runtime for closed examples.  Its \<open>load_field\<close> accepts a string when the base URI is
  a string, and resolves it against the base URI by appending it; it rejects every other
  value.  Its \<open>expand_url\<close> returns the key as it is.
\<close>

definition example_runtime :: runtime where
  "example_runtime =
     \<lparr>load_field = (\<lambda>v t b lo. case (v, b) of
                        (PyStr s, PyStr base) \<Rightarrow> Inr (PyStr (base @ s))
                      | _ \<Rightarrow> Inl (PyExc ''expected a string'' [])),
      expand_url = (\<lambda>k lo. k),
      uuid4 = ''0000''\<rparr>"

text \<open>
  A record for closed examples, with the identifier field \<open>id\<close>, the required field \<open>a\<close>
  and the optional field \<open>b\<close>, generated by the calls the spec prescribes.
\<close>

definition example_record :: "bool \<Rightarrow> string option \<Rightarrow> codegen" where
  "example_record id_optional subscope =
     end_class plain_names ''Rec'' [''id'', ''a'', ''b'']
       (declare_fields plain_names
          [(''a'', string_type_def, None, False), (''b'', string_type_def, None, True)]
          (declare_id_field plain_names ''id''
             (fst (uri_loader string_type_def True False None after_prologue)) None
             id_optional subscope
             (begin_class plain_names ''Rec'' [] [] False [''id'', ''a'', ''b''] ''id''
                (if id_optional then {''id'', ''b''} else {''b''})
                (new_codegen None []))))"

text \<open>The local variables that the template at the end of \<open>fromDoc\<close> assigns.\<close>

definition loop_vars :: "string set" where
  "loop_vars = {''k'', ''ex'', ''extension_fields'', ''_errors__''}"

text \<open>
  The variable that the identifier template tests and assigns, and its fallback, as
  \<open>declare_id_field\<close> computes them.
\<close>

definition id_variable :: "schema_module \<Rightarrow> string \<Rightarrow> string option \<Rightarrow> string" where
  "id_variable sch nm subscope =
     safe_name sch (case subscope of None \<Rightarrow> nm | Some sub \<Rightarrow> nm @ sub)"

definition id_fallback :: "schema_module \<Rightarrow> string \<Rightarrow> bool \<Rightarrow> opt_stmt" where
  "id_fallback sch nm optional =
     (if optional then BlankNode (safe_name sch nm) else RaiseMissing (shortname sch nm))"

text \<open>The text that a call of the generator appends to \<open>self.out\<close>.\<close>

definition written :: "codegen \<Rightarrow> codegen \<Rightarrow> stmt list" where
  "written g g' = drop (length (out g)) (out g')"

text \<open>The value that a run returns, or the fault it ends in.\<close>

definition returned :: "fault + flow \<Rightarrow> pyval option" where
  "returned r = (case r of Inr (Returned v) \<Rightarrow> Some v | _ \<Rightarrow> None)"

definition raised :: "fault + flow \<Rightarrow> fault option" where
  "raised r = (case r of Inl f \<Rightarrow> Some f | Inr _ \<Rightarrow> None)"

text \<open>
  A record for closed examples with the two fields \<open>class\<close> and \<open>class_\<close>, generated by the
  calls the spec prescribes.
\<close>

definition class_record :: codegen where
  "class_record =
     end_class plain_names ''Rec'' [''class'', ''class_'']
       (declare_fields plain_names
          [(''class'', string_type_def, None, False), (''class_'', string_type_def, None, False)]
          (begin_class plain_names ''Rec'' [] [] False [''class'', ''class_''] [] {}
             (new_codegen None [])))"


section \<open>The catalog only grows\<close>

lemma collected_types_fold_add_vocab:
  "collected_types (fold (\<lambda>sym g. add_vocab (f sym) sym g) ss g) = collected_types g"
  by (induction ss arbitrary: g) (auto simp: add_vocab_def)

lemma declare_type_keeps:
  "map_of (collected_types g) n = Some x \<Longrightarrow>
   map_of (collected_types (snd (declare_type t g))) n = Some x"
  by (auto simp: declare_type_def split: option.splits)

lemma declare_type_ok:
  "catalog_ok g \<Longrightarrow> catalog_ok (snd (declare_type t g))"
  by (auto simp: declare_type_def catalog_ok_def split: option.splits)

lemma declare_type_name:
  "catalog_ok g \<Longrightarrow> name (fst (declare_type t g)) = name t"
  by (auto simp: declare_type_def catalog_ok_def list_all_iff split: option.splits dest!: map_of_SomeD)


lemma declare_type_keeps':
  "declare_type t g = (u, g') \<Longrightarrow> map_of (collected_types g) n = Some x \<Longrightarrow>
   map_of (collected_types g') n = Some x"
  using declare_type_keeps[of g n x t] by simp

lemma type_loader_keeps:
  "type_loader sch d g = Inr (t, g') \<Longrightarrow> map_of (collected_types g) n = Some x
     \<Longrightarrow> map_of (collected_types g') n = Some x"
  "type_loader_seq sch ds g = Inr (ts, g') \<Longrightarrow> map_of (collected_types g) n = Some x
     \<Longrightarrow> map_of (collected_types g') n = Some x"
proof (induction sch d g and sch ds g arbitrary: t g' and ts g'
    rule: type_loader_type_loader_seq.induct)
  case (1 sch ds g)
  then show ?case
    by (auto split: sum.splits prod.splits simp: Let_def elim: declare_type_keeps')
next
  case (2 sch ty its syms nm ab g)
  then show ?case
    by (auto split: sum.splits prod.splits option.splits if_splits
        simp: Let_def collected_types_fold_add_vocab
        elim: declare_type_keeps')
next
  case (3 sch s g)
  then show ?case
    by (auto split: option.splits if_splits elim: declare_type_keeps')
next
  case (4 sch g)
  then show ?case by simp
next
  case (5 sch d ds g)
  then show ?case by (auto split: sum.splits prod.splits)
qed

lemma declare_type_ok':
  "declare_type t g = (u, g') \<Longrightarrow> catalog_ok g \<Longrightarrow> catalog_ok g'"
  using declare_type_ok[of g t] by simp

lemma catalog_ok_fold_add_vocab:
  "catalog_ok (fold (\<lambda>sym g. add_vocab (f sym) sym g) ss g) = catalog_ok g"
  by (simp add: catalog_ok_def collected_types_fold_add_vocab)

lemma type_loader_ok:
  "type_loader sch d g = Inr (t, g') \<Longrightarrow> catalog_ok g \<Longrightarrow> catalog_ok g'"
  "type_loader_seq sch ds g = Inr (ts, g') \<Longrightarrow> catalog_ok g \<Longrightarrow> catalog_ok g'"
proof (induction sch d g and sch ds g arbitrary: t g' and ts g'
    rule: type_loader_type_loader_seq.induct)
  case (1 sch ds g)
  then show ?case
    by (auto split: sum.splits prod.splits simp: Let_def elim: declare_type_ok')
next
  case (2 sch ty its syms nm ab g)
  then show ?case
    by (auto split: sum.splits prod.splits option.splits if_splits
        simp: Let_def catalog_ok_fold_add_vocab
        elim: declare_type_ok')
next
  case (3 sch s g)
  then show ?case
    by (auto split: option.splits if_splits elim: declare_type_ok')
next
  case (4 sch g)
  then show ?case by simp
next
  case (5 sch d ds g)
  then show ?case by (auto split: sum.splits prod.splits)
qed

section \<open>The generated names determine their components\<close>





















section \<open>Closed evaluations used by the examples\<close>

lemma catalog_ok_after_prologue: "catalog_ok after_prologue"
  by code_simp


section \<open>Interning twice, and the vocabulary in key order\<close>

lemma declare_type_again:
  assumes "catalog_ok g"
    and "map_of (collected_types g2) (name (fst (declare_type t g))) = Some (fst (declare_type t g))"
  shows "declare_type t g2 = (fst (declare_type t g), g2)"
proof -
  have "name (fst (declare_type t g)) = name t" using assms(1) by (rule declare_type_name)
  with assms(2) have "map_of (collected_types g2) (name t) = Some (fst (declare_type t g))" by simp
  then show ?thesis by (simp add: declare_type_def)
qed


lemma fst_vocab_items_aux:
  "set ks \<subseteq> fst ` set v \<Longrightarrow>
   map fst (concat (map (\<lambda>k. case map_of v k of None \<Rightarrow> [] | Some uri \<Rightarrow> [(k, uri)]) ks)) = ks"
proof (induction ks)
  case Nil
  then show ?case by simp
next
  case (Cons k ks)
  then have "k \<in> fst ` set v" by simp
  then obtain u where "map_of v k = Some u"
    by (metis domD dom_map_of_conv_image_fst)
  with Cons show ?case by simp
qed

lemma fst_vocab_items: "map fst (vocab_items v) = sort (map fst v)"
  unfolding vocab_items_def by (rule fst_vocab_items_aux) simp

lemma vocab_items_lookup: "list_all (\<lambda>(k, uri). map_of v k = Some uri) (vocab_items v)"
  by (auto simp: vocab_items_def list_all_iff split: option.splits)


section \<open>Running the templates\<close>


lemma reserved_simps:
  "sn \<notin> reserved \<Longrightarrow> sn \<noteq> ''_doc'' \<and> sn \<noteq> ''baseuri'' \<and> sn \<noteq> ''loadingOptions''
     \<and> sn \<noteq> ''_errors__'' \<and> sn \<noteq> ''cls''"
  by (simp add: reserved_def)

lemma exec_load_field_ok:
  assumes fr: "in_fromDoc fr d b lo es c" and sn: "sn \<notin> reserved"
  shows "\<exists>fr'. exec_load_field rt optional sn fn ft fr = Inr (Next fr')
     \<and> in_fromDoc fr' d b lo
          (es @ map (\<lambda>(f, e). field_error f e) (failures rt d b lo [LoadField optional sn fn ft])) c
     \<and> calls fr' = calls fr @ load_calls d b lo [LoadField optional sn fn ft]"
proof -
  note r = reserved_simps[OF sn]
  show ?thesis
  proof (cases "optional \<and> fn \<notin> fst ` set d")
    case True
    then show ?thesis using fr r
      by (auto simp: exec_load_field_def in_fromDoc_def lookup_def assign_def)
  next
    case False
    show ?thesis
    proof (cases "load_field rt (dict_get d fn) ft b lo")
      case (Inl e)
      then show ?thesis using fr r False
        by (auto simp: exec_load_field_def in_fromDoc_def lookup_def assign_def unbind_def)
    next
      case (Inr v)
      then show ?thesis using fr r False
        by (auto simp: exec_load_field_def in_fromDoc_def lookup_def assign_def)
    qed
  qed
qed

lemma failures_append:
  "failures rt d b lo (xs @ ys) = failures rt d b lo xs @ failures rt d b lo ys"
  by (induction rt d b lo xs rule: failures.induct) auto

lemma load_calls_append:
  "load_calls d b lo (xs @ ys) = load_calls d b lo xs @ load_calls d b lo ys"
  by (induction d b lo xs rule: load_calls.induct) auto

lemma exec_loads:
  assumes "plain_loads ss" and "in_fromDoc fr d b lo es c"
  shows "\<exists>fr'. exec_stmts rt attrs ss fr = Inr (Next fr')
     \<and> in_fromDoc fr' d b lo (es @ map (\<lambda>(f, e). field_error f e) (failures rt d b lo ss)) c
     \<and> calls fr' = calls fr @ load_calls d b lo ss"
  using assms
proof (induction ss arbitrary: fr es)
  case Nil
  then show ?case by simp
next
  case (Cons s ss)
  from Cons.prems(1) obtain optional sn fn ft where s: "s = LoadField optional sn fn ft"
    and sn: "sn \<notin> reserved" and rest: "plain_loads ss"
    by (cases s) (auto simp: plain_loads_def)
  from exec_load_field_ok[OF Cons.prems(2) sn, of rt optional fn ft]
  obtain fr1 where e1: "exec_load_field rt optional sn fn ft fr = Inr (Next fr1)"
    and i1: "in_fromDoc fr1 d b lo
          (es @ map (\<lambda>(f, e). field_error f e) (failures rt d b lo [LoadField optional sn fn ft])) c"
    and c1: "calls fr1 = calls fr @ load_calls d b lo [LoadField optional sn fn ft]" by blast
  from Cons.IH[OF rest i1] obtain fr2 where e2: "exec_stmts rt attrs ss fr1 = Inr (Next fr2)"
    and i2: "in_fromDoc fr2 d b lo
          ((es @ map (\<lambda>(f, e). field_error f e) (failures rt d b lo [LoadField optional sn fn ft]))
            @ map (\<lambda>(f, e). field_error f e) (failures rt d b lo ss)) c"
    and c2: "calls fr2 = calls fr1 @ load_calls d b lo ss" by blast
  have f: "failures rt d b lo (s # ss)
      = failures rt d b lo [LoadField optional sn fn ft] @ failures rt d b lo ss"
    using failures_append[of rt d b lo "[s]" ss] s by simp
  have l: "load_calls d b lo (s # ss)
      = load_calls d b lo [LoadField optional sn fn ft] @ load_calls d b lo ss"
    using load_calls_append[of d b lo "[s]" ss] s by simp
  from e1 e2 s have "exec_stmts rt attrs (s # ss) fr = Inr (Next fr2)" by simp
  moreover from i2 f have "in_fromDoc fr2 d b lo
      (es @ map (\<lambda>(f, e). field_error f e) (failures rt d b lo (s # ss))) c" by simp
  moreover from c1 c2 l have "calls fr2 = calls fr @ load_calls d b lo (s # ss)" by simp
  ultimately show ?case by blast
qed

lemma unknown_fields_loop_ok:
  assumes "in_fromDoc fr d b lo es c" and "locals fr ''extension_fields'' = Some (PyDict ef)"
  shows "\<exists>fr'. unknown_fields_loop rt attrs attrstr ks fr = Inr fr'
     \<and> in_fromDoc fr' d b lo (es @ unexpected attrs attrstr ks) c
     \<and> locals fr' ''extension_fields''
         = Some (PyDict (extension_of rt d lo (captured attrs ks) ef))
     \<and> calls fr' = calls fr
     \<and> (\<forall>x. x \<notin> loop_vars \<longrightarrow> locals fr' x = locals fr x)"
  using assms
proof (induction ks arbitrary: fr ef)
  case Nil
  then show ?case by (simp add: unexpected_def captured_def extension_of_def)
next
  case (Cons k ks)
  let ?fr = "assign ''k'' (PyStr k) fr"
  have i0: "in_fromDoc ?fr d b lo es c" and x0: "locals ?fr ''extension_fields'' = Some (PyDict ef)"
    and c0: "calls ?fr = calls fr"
    and p0: "\<forall>x. x \<notin> loop_vars \<longrightarrow> locals ?fr x = locals fr x"
    using Cons.prems by (simp_all add: in_fromDoc_def assign_def loop_vars_def)
  show ?case
  proof (cases "k \<in> set attrs")
    case True
    from Cons.IH[OF i0 x0] obtain fr' where r:
      "unknown_fields_loop rt attrs attrstr ks ?fr = Inr fr'"
      "in_fromDoc fr' d b lo (es @ unexpected attrs attrstr ks) c"
      "locals fr' ''extension_fields'' = Some (PyDict (extension_of rt d lo (captured attrs ks) ef))"
      "calls fr' = calls ?fr"
      "\<forall>x. x \<notin> loop_vars \<longrightarrow> locals fr' x = locals ?fr x" by blast
    have step: "unknown_fields_loop rt attrs attrstr (k # ks) fr
        = unknown_fields_loop rt attrs attrstr ks ?fr"
      using True i0 by (simp add: Let_def lookup_def in_fromDoc_def)
    have u: "unexpected attrs attrstr (k # ks) = unexpected attrs attrstr ks"
      using True by (simp add: unexpected_def bare_unknown_def)
    have cp: "captured attrs (k # ks) = captured attrs ks"
      using True by (simp add: captured_def bare_unknown_def)
    from r step u cp c0 p0 show ?thesis by simp
  next
    case False
    show ?thesis
    proof (cases "CHR '':'' \<in> set k")
      case colon: True
      let ?fr1 = "assign ''extension_fields''
          (PyDict (AList.update (expand_url rt k lo) (dict_get d k) ef))
          (assign ''ex'' (PyStr (expand_url rt k lo)) ?fr)"
      have i1: "in_fromDoc ?fr1 d b lo es c"
        and x1: "locals ?fr1 ''extension_fields''
          = Some (PyDict (AList.update (expand_url rt k lo) (dict_get d k) ef))"
        and c1: "calls ?fr1 = calls fr"
        and p1: "\<forall>x. x \<notin> loop_vars \<longrightarrow> locals ?fr1 x = locals fr x"
        using Cons.prems by (simp_all add: in_fromDoc_def assign_def loop_vars_def)
      from Cons.IH[OF i1 x1] obtain fr' where r:
        "unknown_fields_loop rt attrs attrstr ks ?fr1 = Inr fr'"
        "in_fromDoc fr' d b lo (es @ unexpected attrs attrstr ks) c"
        "locals fr' ''extension_fields'' = Some (PyDict (extension_of rt d lo (captured attrs ks)
            (AList.update (expand_url rt k lo) (dict_get d k) ef)))"
        "calls fr' = calls ?fr1"
        "\<forall>x. x \<notin> loop_vars \<longrightarrow> locals fr' x = locals ?fr1 x" by blast
      have step: "unknown_fields_loop rt attrs attrstr (k # ks) fr
          = unknown_fields_loop rt attrs attrstr ks ?fr1"
        using False colon Cons.prems
        by (simp add: Let_def lookup_def in_fromDoc_def assign_def)
      have u: "unexpected attrs attrstr (k # ks) = unexpected attrs attrstr ks"
        using colon by (simp add: unexpected_def bare_unknown_def)
      have cp: "captured attrs (k # ks) = k # captured attrs ks"
        using False colon by (simp add: captured_def bare_unknown_def)
      from r step u cp c1 p1 show ?thesis by (simp add: extension_of_def)
    next
      case bare: False
      have u: "unexpected attrs attrstr (k # ks) = [unexpected_field attrstr k]"
        using False bare by (simp add: unexpected_def bare_unknown_def)
      have cp: "captured attrs (k # ks) = []"
        using False bare by (simp add: captured_def bare_unknown_def)
      show ?thesis using False bare Cons.prems u cp
        by (simp add: Let_def lookup_def in_fromDoc_def assign_def extension_of_def loop_vars_def)
    qed
  qed
qed

lemma exec_unknown_fields_ok:
  assumes "in_fromDoc fr d b lo es c"
  shows "\<exists>fr'. exec_unknown_fields rt attrs attrstr cn fr =
       (if es @ unexpected attrs attrstr (map fst d) \<noteq> [] then
          Inl (ValidationException (''Trying '' @ sq @ cn @ sq)
                 (es @ unexpected attrs attrstr (map fst d)))
        else Inr (Next fr'))
     \<and> in_fromDoc fr' d b lo (es @ unexpected attrs attrstr (map fst d)) c
     \<and> locals fr' ''extension_fields''
         = Some (PyDict (extension_of rt d lo (captured attrs (map fst d)) []))
     \<and> calls fr' = calls fr
     \<and> (\<forall>x. x \<notin> loop_vars \<longrightarrow> locals fr' x = locals fr x)"
proof -
  let ?fr = "assign ''extension_fields'' (PyDict []) fr"
  have i0: "in_fromDoc ?fr d b lo es c" and x0: "locals ?fr ''extension_fields'' = Some (PyDict [])"
    and c0: "calls ?fr = calls fr"
    and p0: "\<forall>x. x \<notin> loop_vars \<longrightarrow> locals ?fr x = locals fr x"
    using assms by (simp_all add: in_fromDoc_def assign_def loop_vars_def)
  from unknown_fields_loop_ok[OF i0 x0, of rt attrs attrstr "map fst d"] obtain fr' where r:
    "unknown_fields_loop rt attrs attrstr (map fst d) ?fr = Inr fr'"
    "in_fromDoc fr' d b lo (es @ unexpected attrs attrstr (map fst d)) c"
    "locals fr' ''extension_fields''
       = Some (PyDict (extension_of rt d lo (captured attrs (map fst d)) []))"
    "calls fr' = calls ?fr"
    "\<forall>x. x \<notin> loop_vars \<longrightarrow> locals fr' x = locals ?fr x" by blast
  have e: "exec_unknown_fields rt attrs attrstr cn fr =
     (if es @ unexpected attrs attrstr (map fst d) \<noteq> [] then
        Inl (ValidationException (''Trying '' @ sq @ cn @ sq)
               (es @ unexpected attrs attrstr (map fst d)))
      else Inr (Next fr'))"
    using r i0 by (simp add: exec_unknown_fields_def Let_def lookup_def in_fromDoc_def)
  from e r c0 p0 show ?thesis by auto
qed

lemma out_declare_field:
  "\<not> current_class_is_abstract g \<Longrightarrow>
   out (declare_field sch nm ft doc optional g) = out g @ field_loads sch [(nm, ft, doc, optional)]
   \<and> current_class_is_abstract (declare_field sch nm ft doc optional g) = False"
  by (simp add: declare_field_def field_loads_def Let_def)

lemma field_loads_append: "field_loads sch (xs @ ys) = field_loads sch xs @ field_loads sch ys"
  by (simp add: field_loads_def)

lemma out_declare_fields:
  "\<not> current_class_is_abstract g \<Longrightarrow>
   out (declare_fields sch flds g) = out g @ field_loads sch flds
   \<and> current_class_is_abstract (declare_fields sch flds g) = False"
proof (induction flds arbitrary: g)
  case Nil
  then show ?case by (simp add: declare_fields_def field_loads_def)
next
  case (Cons f flds)
  obtain nm ft doc optional where f: "f = (nm, ft, doc, optional)" by (cases f) auto
  let ?g = "declare_field sch nm ft doc optional g"
  from out_declare_field[OF Cons.prems, of sch nm ft doc optional]
  have o: "out ?g = out g @ field_loads sch [(nm, ft, doc, optional)]"
    and a: "\<not> current_class_is_abstract ?g" by simp_all
  have d: "declare_fields sch (f # flds) g = declare_fields sch flds ?g"
    by (simp add: declare_fields_def f)
  have "field_loads sch (f # flds) = field_loads sch [(nm, ft, doc, optional)] @ field_loads sch flds"
    using field_loads_append[of sch "[f]" flds] f by simp
  with Cons.IH[OF a] o d show ?case by simp
qed

lemma out_end_class:
  "\<not> current_class_is_abstract g \<Longrightarrow>
   out (end_class sch cn fns g) =
     out g @ [UnknownFields (join '', '' (map (\<lambda>f. bq @ f @ bq) fns)) (safe_name sch cn),
              ReturnCls (map (safe_name sch) (filter (\<lambda>f. f \<noteq> ''class'') fns))]
       @ serializer g @ [SaveTop, ReturnR, Attrs fns, Newlines]"
  by (simp add: end_class_def Let_def)

lemma original_is_none_neq: "original_is_none sn \<noteq> sn"
proof
  assume "original_is_none sn = sn"
  then have "length (original_is_none sn) = length sn" by simp
  then show False by (simp add: original_is_none_def)
qed

lemma original_is_none_not_reserved [simp]:
  "original_is_none sn \<noteq> ''_doc''" "original_is_none sn \<noteq> ''baseuri''"
  "original_is_none sn \<noteq> ''loadingOptions''" "original_is_none sn \<noteq> ''_errors__''"
  "original_is_none sn \<noteq> ''cls''" "original_is_none sn \<noteq> ''docRoot''"
  "''_doc'' \<noteq> original_is_none sn" "''baseuri'' \<noteq> original_is_none sn"
  "''loadingOptions'' \<noteq> original_is_none sn" "''_errors__'' \<noteq> original_is_none sn"
  "''cls'' \<noteq> original_is_none sn" "''docRoot'' \<noteq> original_is_none sn"
  by (simp_all add: original_is_none_def)

lemma out_declare_id_field:
  "\<not> current_class_is_abstract g \<Longrightarrow>
   out (declare_id_field sch nm ft doc optional subscope g) =
     out (declare_field sch nm ft doc True g)
       @ [IdDefault (id_variable sch nm subscope) (id_fallback sch nm optional)]
   \<and> current_class_is_abstract (declare_id_field sch nm ft doc optional subscope g) = False"
  using out_declare_field[of g sch nm ft doc True]
  by (simp add: declare_id_field_def id_variable_def id_fallback_def Let_def)

lemma exec_id_default_absent_root:
  assumes "locals fr sn = Some PyNone" and "locals fr ''docRoot'' = Some dr" and "dr \<noteq> PyNone"
  shows "exec_id_default rt sn opt fr
     = Inr (Next (assign sn dr (assign (original_is_none sn) (PyBool True) fr)))"
  using assms original_is_none_neq[of sn]
  by (auto simp: exec_id_default_def Let_def lookup_def assign_def truthy_def)

lemma exec_id_default_absent_blank:
  assumes "locals fr sn = Some PyNone" and "locals fr ''docRoot'' = Some PyNone"
  shows "exec_id_default rt sn (BlankNode x) fr
     = Inr (Next (assign x (PyStr (''_:'' @ uuid4 rt)) (assign (original_is_none sn) (PyBool True) fr)))"
  using assms original_is_none_neq[of sn]
  by (auto simp: exec_id_default_def exec_opt_def Let_def lookup_def assign_def truthy_def)

lemma exec_id_default_absent_missing:
  assumes "locals fr sn = Some PyNone" and "locals fr ''docRoot'' = Some PyNone"
  shows "exec_id_default rt sn (RaiseMissing f) fr = Inl (ValidationException (''Missing '' @ f) [])"
  using assms original_is_none_neq[of sn]
  by (auto simp: exec_id_default_def exec_opt_def Let_def lookup_def assign_def)

lemma exec_id_default_present:
  assumes "locals fr sn = Some v" and "v \<noteq> PyNone"
  shows "exec_id_default rt sn opt fr
     = Inr (Next (assign ''baseuri'' v (assign (original_is_none sn) (PyBool False) fr)))"
  using assms original_is_none_neq[of sn]
  by (auto simp: exec_id_default_def Let_def lookup_def assign_def truthy_def)

lemma plain_id: "id_variable plain_names ''id'' None = ''id''" "safe_name plain_names ''id'' = ''id''"
  "shortname plain_names ''id'' = ''id''"
  by code_simp+

lemma load_calls_base: "list_all (\<lambda>(t, x, base, l). base = u) (load_calls d u lo ss)"
  by (induction d u lo ss rule: load_calls.induct) auto

lemma in_fromDoc_assign_other:
  "in_fromDoc fr d b lo es c \<Longrightarrow> x \<notin> reserved \<Longrightarrow> in_fromDoc (assign x v fr) d b lo es c"
  by (auto simp: in_fromDoc_def assign_def reserved_def)

lemma original_is_none_reserved: "original_is_none sn \<notin> reserved"
  by (simp add: reserved_def)

lemma written_append: "out g' = out g @ xs \<Longrightarrow> written g g' = xs"
  by (simp add: written_def)


lemma captured_all:
  "find (bare_unknown attrs) ks = None \<Longrightarrow> captured attrs ks = filter (\<lambda>k. k \<notin> set attrs) ks"
proof -
  assume "find (bare_unknown attrs) ks = None"
  then have "\<forall>k\<in>set ks. \<not> bare_unknown attrs k" by (simp add: find_None_iff)
  then have "takeWhile (\<lambda>k. \<not> bare_unknown attrs k) ks = ks" by (simp add: takeWhile_eq_all_conv)
  then show ?thesis by (simp only: captured_def)
qed



section \<open>Unions\<close>

text \<open>
  C1, as stated, fails.  The union of \<open>string\<close> and \<open>int\<close> and the union of \<open>int\<close> and
  \<open>string\<close> have the same set of members; the first is named
  \<open>union_of_strtype_or_inttype\<close>, the second \<open>union_of_inttype_or_strtype\<close>, and the
  catalog holds one entry for each.
\<close>

theorem union_order_counterexample:
  "(case type_loader plain_names (DeclSeq [DeclStr ''string'', DeclStr ''int'']) after_prologue of
      Inl e \<Rightarrow> False
    | Inr (u1, g1) \<Rightarrow>
        (case type_loader plain_names (DeclSeq [DeclStr ''int'', DeclStr ''string'']) g1 of
           Inl e \<Rightarrow> False
         | Inr (u2, g2) \<Rightarrow>
             name u1 = ''union_of_strtype_or_inttype''
             \<and> name u2 = ''union_of_inttype_or_strtype''
             \<and> name u1 \<noteq> name u2
             \<and> map fst (collected_types g2) =
                 [''strtype'', ''inttype'', ''floattype'', ''booltype'', ''None_type'', ''Any_type'',
                  ''union_of_strtype_or_inttype'', ''union_of_inttype_or_strtype'']))"
  by code_simp

text \<open>
  C1, amended.  \<open>dict.fromkeys\<close> removes repeated member names and keeps the order of
  first occurrence; nothing sorts the names.  Two union declarations whose members
  resolve to the same names in the same order of first occurrence get the same generated
  name, \<open>union_of_\<close> followed by the names joined with \<open>_or_\<close>; if the first union is still
  in the catalog when the second is resolved, the second resolves to the very descriptor
  of the first and adds no entry of its own.
\<close>

theorem union_same_member_order_shared:
  assumes ok: "catalog_ok g1"
    and m1: "type_loader_seq sch ds1 g1 = Inr (ts1, h1)"
    and u1: "type_loader sch (DeclSeq ds1) g1 = Inr (u1, g1')"
    and still: "map_of (collected_types g2) (name u1) = Some u1"
    and m2: "type_loader_seq sch ds2 g2 = Inr (ts2, h2)"
    and u2: "type_loader sch (DeclSeq ds2) g2 = Inr (u2, g2')"
    and same: "fromkeys (map name ts1) = fromkeys (map name ts2)"
  shows "name u1 = ''union_of_'' @ join ''_or_'' (fromkeys (map name ts1))
    \<and> name u2 = name u1 \<and> u2 = u1 \<and> collected_types g2' = collected_types h2"
proof -
  let ?t = "union_type_def (fromkeys (map name ts1))"
  from m1 u1 have d1: "declare_type ?t h1 = (u1, g1')" by simp
  have "catalog_ok h1" using type_loader_ok(2)[OF m1 ok] .
  then have "name (fst (declare_type ?t h1)) = name ?t" by (rule declare_type_name)
  with d1 have n1: "name u1 = name ?t" by simp
  have nt: "name ?t = ''union_of_'' @ join ''_or_'' (fromkeys (map name ts1))"
    by (simp add: union_type_def_def mkTypeDef_def)
  from m2 u2 same have d2: "declare_type ?t h2 = (u2, g2')" by simp
  have "map_of (collected_types h2) (name u1) = Some u1"
    using type_loader_keeps(2)[OF m2 still] .
  with n1 have "map_of (collected_types h2) (name ?t) = Some u1" by simp
  then have "declare_type ?t h2 = (u1, h2)" by (simp add: declare_type_def)
  with d2 have "u2 = u1" "g2' = h2" by simp_all
  with n1 nt show ?thesis by simp
qed

theorem union_same_member_order_shared_witness:
  "name (fst (projr (type_loader plain_names
       (DeclSeq [DeclStr ''string'', DeclStr ''int'', DeclStr ''string'']) after_prologue)))
     = ''union_of_'' @ join ''_or_'' (fromkeys (map name (fst (projr (type_loader_seq plain_names
         [DeclStr ''string'', DeclStr ''int'', DeclStr ''string''] after_prologue)))))
   \<and> name (fst (projr (type_loader plain_names (DeclSeq [DeclStr ''string'', DeclStr ''int''])
         (snd (projr (type_loader plain_names
           (DeclSeq [DeclStr ''string'', DeclStr ''int'', DeclStr ''string'']) after_prologue))))))
     = name (fst (projr (type_loader plain_names
       (DeclSeq [DeclStr ''string'', DeclStr ''int'', DeclStr ''string'']) after_prologue)))
   \<and> fst (projr (type_loader plain_names (DeclSeq [DeclStr ''string'', DeclStr ''int''])
         (snd (projr (type_loader plain_names
           (DeclSeq [DeclStr ''string'', DeclStr ''int'', DeclStr ''string'']) after_prologue)))))
     = fst (projr (type_loader plain_names
       (DeclSeq [DeclStr ''string'', DeclStr ''int'', DeclStr ''string'']) after_prologue))
   \<and> collected_types (snd (projr (type_loader plain_names (DeclSeq [DeclStr ''string'', DeclStr ''int''])
         (snd (projr (type_loader plain_names
           (DeclSeq [DeclStr ''string'', DeclStr ''int'', DeclStr ''string'']) after_prologue))))))
     = collected_types (snd (projr (type_loader_seq plain_names [DeclStr ''string'', DeclStr ''int'']
         (snd (projr (type_loader plain_names
           (DeclSeq [DeclStr ''string'', DeclStr ''int'', DeclStr ''string'']) after_prologue))))))"
proof -
  let ?ds1 = "[DeclStr ''string'', DeclStr ''int'', DeclStr ''string'']"
  let ?ds2 = "[DeclStr ''string'', DeclStr ''int'']"
  let ?m1 = "type_loader_seq plain_names ?ds1 after_prologue"
  let ?r1 = "type_loader plain_names (DeclSeq ?ds1) after_prologue"
  let ?g2 = "snd (projr ?r1)"
  let ?m2 = "type_loader_seq plain_names ?ds2 ?g2"
  let ?r2 = "type_loader plain_names (DeclSeq ?ds2) ?g2"
  have m1: "?m1 = Inr (fst (projr ?m1), snd (projr ?m1))" by code_simp
  have r1: "?r1 = Inr (fst (projr ?r1), ?g2)" by code_simp
  have still: "map_of (collected_types ?g2) (name (fst (projr ?r1))) = Some (fst (projr ?r1))"
    by code_simp
  have m2: "?m2 = Inr (fst (projr ?m2), snd (projr ?m2))" by code_simp
  have r2: "?r2 = Inr (fst (projr ?r2), snd (projr ?r2))" by code_simp
  have same: "fromkeys (map name (fst (projr ?m1))) = fromkeys (map name (fst (projr ?m2)))"
    by code_simp
  show ?thesis
    by (rule union_same_member_order_shared[OF catalog_ok_after_prologue m1 r1 still m2 r2 same])
qed


section \<open>Errors of the declared fields\<close>




text \<open>
  The load of the identifier field is written by the same template with \<open>optional\<close> set.
  When that load fails, the error is collected and the variable of the identifier stays
  unbound; the identifier template that follows reads it.
\<close>

lemma identifier_load_failure_unbound:
  "raised (fromDoc example_runtime (out (example_record True None)) ''Rec''
       (PyDict [(''id'', PyNone), (''a'', PyStr ''x'')]) (PyStr ''base/'') PyNone PyNone)
     = Some (UnboundLocalError ''id'')"
  by code_simp

section \<open>The base URI after the identifier\<close>

text \<open>
  C3, as stated, fails.  The example runtime resolves a string by appending it to the base
  URI.  With no \<open>id\<close> in the document and the document root \<open>root/\<close>, the identifier
  becomes \<open>root/\<close> and the field \<open>a\<close> is still resolved against the ambient \<open>base/\<close>; with
  no document root the identifier is synthesized and \<open>a\<close> is again resolved against
  \<open>base/\<close>.  Only an identifier supplied in the document becomes the base URI.
\<close>

theorem baseuri_default_counterexample:
  "returned (fromDoc example_runtime (out (example_record True None)) ''Rec''
       (PyDict [(''a'', PyStr ''x'')]) (PyStr ''base/'') PyNone (PyStr ''root/''))
     = Some (PyObj ''Rec''
         [(''id'', PyStr ''root/''), (''a'', PyStr ''base/x''), (''b'', PyNone),
          (''extension_fields'', PyDict []), (''loadingOptions'', PyNone)])
   \<and> returned (fromDoc example_runtime (out (example_record True None)) ''Rec''
       (PyDict [(''a'', PyStr ''x'')]) (PyStr ''base/'') PyNone PyNone)
     = Some (PyObj ''Rec''
         [(''id'', PyStr ''_:0000''), (''a'', PyStr ''base/x''), (''b'', PyNone),
          (''extension_fields'', PyDict []), (''loadingOptions'', PyNone)])
   \<and> returned (fromDoc example_runtime (out (example_record True None)) ''Rec''
       (PyDict [(''id'', PyStr ''me/''), (''a'', PyStr ''x'')]) (PyStr ''base/'') PyNone (PyStr ''root/''))
     = Some (PyObj ''Rec''
         [(''id'', PyStr ''base/me/''), (''a'', PyStr ''base/me/x''), (''b'', PyNone),
          (''extension_fields'', PyDict []), (''loadingOptions'', PyNone)])"
  by code_simp

text \<open>
  C3, amended.  The identifier template sets \<open>baseuri\<close> to the identifier only when the
  value loaded from the document is not None (\<open>__original_..._is_none\<close> is false).  Then
  every later field load of the record is called with the identifier as base URI.  When
  the value is None and the identifier is taken from \<open>docRoot\<close> or synthesized, every later
  field load is called with the ambient base URI.
\<close>

theorem baseuri_after_identifier:
  assumes na: "\<not> current_class_is_abstract g"
    and fr: "in_fromDoc fr d b lo es c"
    and idv: "locals fr (id_variable sch nm subscope) = Some v"
    and dr: "locals fr ''docRoot'' = Some dr"
    and sn: "id_variable sch nm subscope \<notin> reserved"
    and bn: "safe_name sch nm \<notin> reserved"
    and pl: "plain_loads (field_loads sch flds)"
  shows "out (declare_fields sch flds (declare_id_field sch nm ft doc optional subscope g)) =
       out (declare_field sch nm ft doc True g)
         @ [IdDefault (id_variable sch nm subscope) (id_fallback sch nm optional)]
         @ field_loads sch flds
     \<and> (v \<noteq> PyNone \<longrightarrow>
          (\<exists>fr'. exec_stmts rt attrs
                   (IdDefault (id_variable sch nm subscope) (id_fallback sch nm optional)
                      # field_loads sch flds) fr = Inr (Next fr')
             \<and> calls fr' = calls fr @ load_calls d v lo (field_loads sch flds)))
     \<and> (v = PyNone \<and> (dr \<noteq> PyNone \<or> optional) \<longrightarrow>
          (\<exists>fr'. exec_stmts rt attrs
                   (IdDefault (id_variable sch nm subscope) (id_fallback sch nm optional)
                      # field_loads sch flds) fr = Inr (Next fr')
             \<and> calls fr' = calls fr @ load_calls d b lo (field_loads sch flds)))
     \<and> list_all (\<lambda>(t, x, base, l). base = v) (load_calls d v lo (field_loads sch flds))
     \<and> list_all (\<lambda>(t, x, base, l). base = b) (load_calls d b lo (field_loads sch flds))"
proof -
  let ?sn = "id_variable sch nm subscope"
  let ?opt = "id_fallback sch nm optional"
  let ?loads = "field_loads sch flds"
  have o: "out (declare_fields sch flds (declare_id_field sch nm ft doc optional subscope g)) =
       out (declare_field sch nm ft doc True g) @ [IdDefault ?sn ?opt] @ ?loads"
    using out_declare_id_field[OF na, of sch nm ft doc optional subscope]
      out_declare_fields[of "declare_id_field sch nm ft doc optional subscope g" sch flds]
    by simp
  have p: "v \<noteq> PyNone \<longrightarrow>
          (\<exists>fr'. exec_stmts rt attrs (IdDefault ?sn ?opt # ?loads) fr = Inr (Next fr')
             \<and> calls fr' = calls fr @ load_calls d v lo ?loads)"
  proof
    assume v: "v \<noteq> PyNone"
    let ?fr1 = "assign ''baseuri'' v (assign (original_is_none ?sn) (PyBool False) fr)"
    have e: "exec_id_default rt ?sn ?opt fr = Inr (Next ?fr1)"
      using exec_id_default_present[OF idv v] .
    have i: "in_fromDoc ?fr1 d v lo es c" using fr
      by (simp add: in_fromDoc_def assign_def)
    have c1: "calls ?fr1 = calls fr" by (simp add: assign_def)
    from exec_loads[OF pl i, of rt attrs] obtain fr' where
      "exec_stmts rt attrs ?loads ?fr1 = Inr (Next fr')"
      "calls fr' = calls ?fr1 @ load_calls d v lo ?loads" by blast
    with e c1 show "\<exists>fr'. exec_stmts rt attrs (IdDefault ?sn ?opt # ?loads) fr = Inr (Next fr')
             \<and> calls fr' = calls fr @ load_calls d v lo ?loads" by simp
  qed
  have q: "v = PyNone \<and> (dr \<noteq> PyNone \<or> optional) \<longrightarrow>
          (\<exists>fr'. exec_stmts rt attrs (IdDefault ?sn ?opt # ?loads) fr = Inr (Next fr')
             \<and> calls fr' = calls fr @ load_calls d b lo ?loads)"
  proof
    assume h: "v = PyNone \<and> (dr \<noteq> PyNone \<or> optional)"
    let ?fr0 = "assign (original_is_none ?sn) (PyBool True) fr"
    have i0: "in_fromDoc ?fr0 d b lo es c"
      using in_fromDoc_assign_other[OF fr original_is_none_reserved] .
    have "\<exists>fr1. exec_id_default rt ?sn ?opt fr = Inr (Next fr1)
        \<and> in_fromDoc fr1 d b lo es c \<and> calls fr1 = calls fr"
    proof (cases "dr \<noteq> PyNone")
      case True
      have "exec_id_default rt ?sn ?opt fr = Inr (Next (assign ?sn dr ?fr0))"
        using exec_id_default_absent_root[OF _ dr True, of ?sn rt ?opt] idv h by simp
      moreover have "in_fromDoc (assign ?sn dr ?fr0) d b lo es c"
        using in_fromDoc_assign_other[OF i0 sn] .
      moreover have "calls (assign ?sn dr ?fr0) = calls fr" by (simp add: assign_def)
      ultimately show ?thesis by blast
    next
      case False
      with h have optl: optional and drn: "dr = PyNone" by simp_all
      let ?fr1 = "assign (safe_name sch nm) (PyStr (''_:'' @ uuid4 rt)) ?fr0"
      have "exec_id_default rt ?sn ?opt fr = Inr (Next ?fr1)"
        using exec_id_default_absent_blank[of fr ?sn rt "safe_name sch nm"] idv h dr drn optl
        by (simp add: id_fallback_def)
      moreover have "in_fromDoc ?fr1 d b lo es c"
        using in_fromDoc_assign_other[OF i0 bn] .
      moreover have "calls ?fr1 = calls fr" by (simp add: assign_def)
      ultimately show ?thesis by blast
    qed
    then obtain fr1 where e: "exec_id_default rt ?sn ?opt fr = Inr (Next fr1)"
      and i: "in_fromDoc fr1 d b lo es c" and c1: "calls fr1 = calls fr" by blast
    from exec_loads[OF pl i, of rt attrs] obtain fr' where
      "exec_stmts rt attrs ?loads fr1 = Inr (Next fr')"
      "calls fr' = calls fr1 @ load_calls d b lo ?loads" by blast
    with e c1 show "\<exists>fr'. exec_stmts rt attrs (IdDefault ?sn ?opt # ?loads) fr = Inr (Next fr')
             \<and> calls fr' = calls fr @ load_calls d b lo ?loads" by simp
  qed
  from o p q load_calls_base show ?thesis by blast
qed

theorem baseuri_after_identifier_witness:
  "(\<exists>fr'. exec_stmts example_runtime []
            (IdDefault ''id'' (BlankNode ''id'')
               # [LoadField False ''a'' ''a'' ''strtype'', LoadField True ''b'' ''b'' ''strtype''])
            \<lparr>locals = [''_doc'' \<mapsto> PyDict [(''id'', PyStr ''me/''), (''a'', PyStr ''x'')],
                        ''baseuri'' \<mapsto> PyStr ''base/'', ''loadingOptions'' \<mapsto> PyNone,
                        ''_errors__'' \<mapsto> PyList [], ''cls'' \<mapsto> PyClass ''Rec'',
                        ''docRoot'' \<mapsto> PyStr ''root/'', ''id'' \<mapsto> PyStr ''base/me/''],
              calls = []\<rparr>
          = Inr (Next fr')
      \<and> calls fr' = [(''strtype'', PyStr ''x'', PyStr ''base/me/'', PyNone)])
   \<and> (\<exists>fr'. exec_stmts example_runtime []
            (IdDefault ''id'' (BlankNode ''id'')
               # [LoadField False ''a'' ''a'' ''strtype'', LoadField True ''b'' ''b'' ''strtype''])
            \<lparr>locals = [''_doc'' \<mapsto> PyDict [(''a'', PyStr ''x'')],
                        ''baseuri'' \<mapsto> PyStr ''base/'', ''loadingOptions'' \<mapsto> PyNone,
                        ''_errors__'' \<mapsto> PyList [], ''cls'' \<mapsto> PyClass ''Rec'',
                        ''docRoot'' \<mapsto> PyStr ''root/'', ''id'' \<mapsto> PyNone],
              calls = []\<rparr>
          = Inr (Next fr')
      \<and> calls fr' = [(''strtype'', PyStr ''x'', PyStr ''base/'', PyNone)])"
proof -
  let ?g = "new_codegen None []"
  let ?flds = "[(''a'', string_type_def, None, False), (''b'', string_type_def, None, True)]"
  let ?d1 = "[(''id'', PyStr ''me/''), (''a'', PyStr ''x'')]"
  let ?d2 = "[(''a'', PyStr ''x'')]"
  let ?fr1 = "\<lparr>locals = [''_doc'' \<mapsto> PyDict ?d1,
                        ''baseuri'' \<mapsto> PyStr ''base/'', ''loadingOptions'' \<mapsto> PyNone,
                        ''_errors__'' \<mapsto> PyList [], ''cls'' \<mapsto> PyClass ''Rec'',
                        ''docRoot'' \<mapsto> PyStr ''root/'', ''id'' \<mapsto> PyStr ''base/me/''],
              calls = []\<rparr>"
  let ?fr2 = "\<lparr>locals = [''_doc'' \<mapsto> PyDict ?d2,
                        ''baseuri'' \<mapsto> PyStr ''base/'', ''loadingOptions'' \<mapsto> PyNone,
                        ''_errors__'' \<mapsto> PyList [], ''cls'' \<mapsto> PyClass ''Rec'',
                        ''docRoot'' \<mapsto> PyStr ''root/'', ''id'' \<mapsto> PyNone],
              calls = []\<rparr>"
  have na: "\<not> current_class_is_abstract ?g" by (simp add: new_codegen_def)
  have i1: "in_fromDoc ?fr1 ?d1 (PyStr ''base/'') PyNone [] ''Rec''"
    and i2: "in_fromDoc ?fr2 ?d2 (PyStr ''base/'') PyNone [] ''Rec''"
    by (simp_all add: in_fromDoc_def)
  have v1: "locals ?fr1 (id_variable plain_names ''id'' None) = Some (PyStr ''base/me/'')"
    and v2: "locals ?fr2 (id_variable plain_names ''id'' None) = Some PyNone"
    by (simp_all add: plain_id)
  have d1: "locals ?fr1 ''docRoot'' = Some (PyStr ''root/'')"
    and d2: "locals ?fr2 ''docRoot'' = Some (PyStr ''root/'')" by simp_all
  have r1: "id_variable plain_names ''id'' None \<notin> reserved"
    and r2: "safe_name plain_names ''id'' \<notin> reserved" by code_simp+
  have fl: "field_loads plain_names ?flds
      = [LoadField False ''a'' ''a'' ''strtype'', LoadField True ''b'' ''b'' ''strtype'']"
    by code_simp
  have pl: "plain_loads (field_loads plain_names ?flds)" by code_simp
  have idf: "id_fallback plain_names ''id'' True = BlankNode ''id''" by code_simp
  have c1: "calls ?fr1 @ load_calls ?d1 (PyStr ''base/me/'') PyNone (field_loads plain_names ?flds)
      = [(''strtype'', PyStr ''x'', PyStr ''base/me/'', PyNone)]" by code_simp
  have c2: "calls ?fr2 @ load_calls ?d2 (PyStr ''base/'') PyNone (field_loads plain_names ?flds)
      = [(''strtype'', PyStr ''x'', PyStr ''base/'', PyNone)]" by code_simp
  note t1 = baseuri_after_identifier[OF na i1 v1 d1 r1 r2 pl, where rt = example_runtime
      and attrs = "[]" and optional = True]
  note t2 = baseuri_after_identifier[OF na i2 v2 d2 r1 r2 pl, where rt = example_runtime
      and attrs = "[]" and optional = True]
  have p1: "PyStr ''base/me/'' \<noteq> PyNone" by simp
  have p2: "PyNone = PyNone \<and> (PyStr ''root/'' \<noteq> PyNone \<or> True)" by simp
  have a: "\<exists>fr'. exec_stmts example_runtime []
            (IdDefault ''id'' (BlankNode ''id'')
               # [LoadField False ''a'' ''a'' ''strtype'', LoadField True ''b'' ''b'' ''strtype'']) ?fr1
          = Inr (Next fr')
      \<and> calls fr' = [(''strtype'', PyStr ''x'', PyStr ''base/me/'', PyNone)]"
    using t1[THEN conjunct2, THEN conjunct1, THEN mp, OF p1] unfolding c1 unfolding fl idf plain_id .
  have b: "\<exists>fr'. exec_stmts example_runtime []
            (IdDefault ''id'' (BlankNode ''id'')
               # [LoadField False ''a'' ''a'' ''strtype'', LoadField True ''b'' ''b'' ''strtype'']) ?fr2
          = Inr (Next fr')
      \<and> calls fr' = [(''strtype'', PyStr ''x'', PyStr ''base/'', PyNone)]"
    using t2[THEN conjunct2, THEN conjunct2, THEN conjunct1, THEN mp, OF p2]
    unfolding c2 unfolding fl idf plain_id .
  from a b show ?thesis by blast
qed

section \<open>The identifier when the document has none\<close>

text \<open>
  The identifier template, run in a frame where the variable it tests is None: if
  \<open>docRoot\<close> is not None the variable becomes \<open>docRoot\<close>; otherwise, for an optional
  identifier, the variable named after the field becomes \<open>_:\<close> followed by a fresh UUID,
  and for a required one \<open>fromDoc\<close> raises \<open>ValidationException("Missing {fieldname}")\<close>.
  Without a subscope the tested variable is the one that the load of the identifier binds.
\<close>

lemma identifier_default:
  assumes "\<not> current_class_is_abstract g"
    and "locals fr (id_variable sch nm subscope) = Some PyNone"
    and "locals fr ''docRoot'' = Some dr"
  shows "out (declare_id_field sch nm ft doc optional subscope g) =
       out (declare_field sch nm ft doc True g)
         @ [IdDefault (id_variable sch nm subscope) (id_fallback sch nm optional)]
     \<and> (dr \<noteq> PyNone \<longrightarrow>
          (\<exists>fr'. exec_stmt rt attrs
                   (IdDefault (id_variable sch nm subscope) (id_fallback sch nm optional)) fr
                 = Inr (Next fr')
             \<and> locals fr' (id_variable sch nm subscope) = Some dr))
     \<and> (dr = PyNone \<and> optional \<longrightarrow>
          (\<exists>fr'. exec_stmt rt attrs
                   (IdDefault (id_variable sch nm subscope) (id_fallback sch nm optional)) fr
                 = Inr (Next fr')
             \<and> locals fr' (safe_name sch nm) = Some (PyStr (''_:'' @ uuid4 rt))))
     \<and> (dr = PyNone \<and> \<not> optional \<longrightarrow>
          exec_stmt rt attrs
            (IdDefault (id_variable sch nm subscope) (id_fallback sch nm optional)) fr
          = Inl (ValidationException (''Missing '' @ shortname sch nm) []))"
proof -
  let ?sn = "id_variable sch nm subscope"
  have a: "out (declare_id_field sch nm ft doc optional subscope g) =
       out (declare_field sch nm ft doc True g) @ [IdDefault ?sn (id_fallback sch nm optional)]"
    using out_declare_id_field[OF assms(1)] by simp
  have b: "dr \<noteq> PyNone \<longrightarrow>
          (\<exists>fr'. exec_stmt rt attrs (IdDefault ?sn (id_fallback sch nm optional)) fr = Inr (Next fr')
             \<and> locals fr' ?sn = Some dr)"
    using exec_id_default_absent_root[OF assms(2,3)] by (simp add: assign_def)
  have c: "dr = PyNone \<and> optional \<longrightarrow>
          (\<exists>fr'. exec_stmt rt attrs (IdDefault ?sn (id_fallback sch nm optional)) fr = Inr (Next fr')
             \<and> locals fr' (safe_name sch nm) = Some (PyStr (''_:'' @ uuid4 rt)))"
    using exec_id_default_absent_blank[OF assms(2)] assms(3)
    by (simp add: assign_def id_fallback_def)
  have d: "dr = PyNone \<and> \<not> optional \<longrightarrow>
          exec_stmt rt attrs (IdDefault ?sn (id_fallback sch nm optional)) fr
          = Inl (ValidationException (''Missing '' @ shortname sch nm) [])"
    using exec_id_default_absent_missing[OF assms(2)] assms(3)
    by (simp add: id_fallback_def)
  from a b c d show ?thesis by blast
qed

lemma identifier_default_witness:
  "\<not> current_class_is_abstract (new_codegen None [])
   \<and> (\<exists>fr'. exec_stmt example_runtime [] (IdDefault ''id'' (id_fallback plain_names ''id'' True))
              \<lparr>locals = [''docRoot'' \<mapsto> PyStr ''root/'', ''id'' \<mapsto> PyNone], calls = []\<rparr>
            = Inr (Next fr')
        \<and> locals fr' ''id'' = Some (PyStr ''root/''))
   \<and> (\<exists>fr'. exec_stmt example_runtime [] (IdDefault ''id'' (id_fallback plain_names ''id'' True))
              \<lparr>locals = [''docRoot'' \<mapsto> PyNone, ''id'' \<mapsto> PyNone], calls = []\<rparr>
            = Inr (Next fr')
        \<and> locals fr' ''id'' = Some (PyStr ''_:0000''))
   \<and> exec_stmt example_runtime [] (IdDefault ''id'' (id_fallback plain_names ''id'' False))
        \<lparr>locals = [''docRoot'' \<mapsto> PyNone, ''id'' \<mapsto> PyNone], calls = []\<rparr>
      = Inl (ValidationException ''Missing id'' [])"
proof -
  let ?g = "new_codegen None []"
  let ?fr1 = "\<lparr>locals = [''docRoot'' \<mapsto> PyStr ''root/'', ''id'' \<mapsto> PyNone], calls = []\<rparr>"
  let ?fr2 = "\<lparr>locals = [''docRoot'' \<mapsto> PyNone, ''id'' \<mapsto> PyNone], calls = []\<rparr>"
  have na: "\<not> current_class_is_abstract ?g" by (simp add: new_codegen_def)
  have i1: "locals ?fr1 (id_variable plain_names ''id'' None) = Some PyNone"
    and i2: "locals ?fr2 (id_variable plain_names ''id'' None) = Some PyNone"
    by (simp_all add: plain_id)
  have d1: "locals ?fr1 ''docRoot'' = Some (PyStr ''root/'')"
    and d2: "locals ?fr2 ''docRoot'' = Some PyNone" by simp_all
  have u: "uuid4 example_runtime = ''0000''" by (simp add: example_runtime_def)
  note a = identifier_default[OF na i1 d1, of string_type_def None True example_runtime "[]"]
  note b = identifier_default[OF na i2 d2, of string_type_def None True example_runtime "[]"]
  note c = identifier_default[OF na i2 d2, of string_type_def None False example_runtime "[]"]
  from a b c na u show ?thesis by (simp add: plain_id)
qed

text \<open>
  C4.  The claim, that an absent identifier is replaced by the document root when there
  is one, and otherwise synthesized or reported as missing, does not hold of the generated
  code when \<open>declare_id_field\<close> is given a subscope.  The load before the identifier
  template binds the variable named after the field name (\<open>id\<close>); the template tests and
  assigns the variable named after the field name with the subscope appended (\<open>idx\<close>),
  which nothing has bound.  With the subscope \<open>x\<close>, \<open>fromDoc\<close> ends in
  \<open>UnboundLocalError\<close> whether the document has no identifier and a document root is
  given, has no identifier and no document root, or has an identifier.
\<close>

theorem identifier_subscope_unbound:
  "id_variable plain_names ''id'' (Some ''x'') = ''idx''
   \<and> raised (fromDoc example_runtime (out (example_record True (Some ''x''))) ''Rec''
       (PyDict [(''a'', PyStr ''x'')]) (PyStr ''base/'') PyNone (PyStr ''root/''))
     = Some (UnboundLocalError ''idx'')
   \<and> raised (fromDoc example_runtime (out (example_record True (Some ''x''))) ''Rec''
       (PyDict [(''a'', PyStr ''x'')]) (PyStr ''base/'') PyNone PyNone)
     = Some (UnboundLocalError ''idx'')
   \<and> raised (fromDoc example_runtime (out (example_record False (Some ''x''))) ''Rec''
       (PyDict [(''a'', PyStr ''x'')]) (PyStr ''base/'') PyNone PyNone)
     = Some (UnboundLocalError ''idx'')
   \<and> raised (fromDoc example_runtime (out (example_record True (Some ''x''))) ''Rec''
       (PyDict [(''id'', PyStr ''me/''), (''a'', PyStr ''x'')]) (PyStr ''base/'') PyNone PyNone)
     = Some (UnboundLocalError ''idx'')
   \<and> returned (fromDoc example_runtime (out (example_record True None)) ''Rec''
       (PyDict [(''a'', PyStr ''x'')]) (PyStr ''base/'') PyNone (PyStr ''root/''))
     = Some (PyObj ''Rec''
         [(''id'', PyStr ''root/''), (''a'', PyStr ''base/x''), (''b'', PyNone),
          (''extension_fields'', PyDict []), (''loadingOptions'', PyNone)])"
  by code_simp

section \<open>Keys that the record does not declare\<close>

text \<open>
  C5, as stated, fails.  The document has two undeclared keys without a colon, \<open>zz\<close> and
  \<open>yy\<close>; the loop stops at the first, and the failure carries one error, for \<open>zz\<close> alone.
\<close>

theorem unknown_fields_counterexample:
  "bare_unknown (class_attrs (out (example_record True None))) ''zz''
   \<and> bare_unknown (class_attrs (out (example_record True None))) ''yy''
   \<and> raised (fromDoc example_runtime (out (example_record True None)) ''Rec''
       (PyDict [(''a'', PyStr ''x''), (''zz'', PyStr ''1''), (''yy'', PyStr ''2''), (''ex:w'', PyStr ''3'')])
       (PyStr ''base/'') PyNone PyNone)
     = Some (ValidationException (''Trying '' @ sq @ ''Rec'' @ sq)
         [unexpected_field (bq @ ''id'' @ bq @ '', '' @ bq @ ''a'' @ bq @ '', '' @ bq @ ''b'' @ bq) ''zz''])"
  by code_simp

text \<open>
  C5, amended.  The keys of the document are scanned in order.  A key that is not in
  \<open>cls.attrs\<close> and has a colon is stored in \<open>extension_fields\<close> under its expanded form.
  At the first key that is not in \<open>cls.attrs\<close> and has no colon, one error is appended
  to the collected errors and the loop ends (\<open>break\<close>): later keys are neither captured
  nor reported.  \<open>fromDoc\<close> then raises if any error was collected.  When the document has
  no such key, every undeclared key is captured.
\<close>

theorem unknown_fields_handling:
  assumes "\<not> current_class_is_abstract g" and "in_fromDoc fr d b lo es c"
  shows "written g (end_class sch cn fns g) =
       [UnknownFields (join '', '' (map (\<lambda>f. bq @ f @ bq) fns)) (safe_name sch cn),
        ReturnCls (map (safe_name sch) (filter (\<lambda>f. f \<noteq> ''class'') fns))]
       @ serializer g @ [SaveTop, ReturnR, Attrs fns, Newlines]
     \<and> (es @ unexpected (attrs_of_names fns) (join '', '' (map (\<lambda>f. bq @ f @ bq) fns)) (map fst d) = []
          \<longrightarrow> (\<exists>fr'. exec_stmt rt (attrs_of_names fns)
                   (UnknownFields (join '', '' (map (\<lambda>f. bq @ f @ bq) fns)) (safe_name sch cn)) fr
                 = Inr (Next fr')
               \<and> locals fr' ''extension_fields''
                   = Some (PyDict (extension_of rt d lo
                       (captured (attrs_of_names fns) (map fst d)) []))))
     \<and> (es @ unexpected (attrs_of_names fns) (join '', '' (map (\<lambda>f. bq @ f @ bq) fns)) (map fst d) \<noteq> []
          \<longrightarrow> exec_stmt rt (attrs_of_names fns)
                 (UnknownFields (join '', '' (map (\<lambda>f. bq @ f @ bq) fns)) (safe_name sch cn)) fr
               = Inl (ValidationException (''Trying '' @ sq @ safe_name sch cn @ sq)
                   (es @ unexpected (attrs_of_names fns)
                      (join '', '' (map (\<lambda>f. bq @ f @ bq) fns)) (map fst d))))
     \<and> unexpected (attrs_of_names fns) (join '', '' (map (\<lambda>f. bq @ f @ bq) fns)) (map fst d)
         = (case find (bare_unknown (attrs_of_names fns)) (map fst d) of
              None \<Rightarrow> []
            | Some k \<Rightarrow> [unexpected_field (join '', '' (map (\<lambda>f. bq @ f @ bq) fns)) k])
     \<and> (find (bare_unknown (attrs_of_names fns)) (map fst d) = None \<longrightarrow>
          captured (attrs_of_names fns) (map fst d)
            = filter (\<lambda>k. k \<notin> set (attrs_of_names fns)) (map fst d))"
proof -
  let ?A = "attrs_of_names fns"
  let ?S = "join '', '' (map (\<lambda>f. bq @ f @ bq) fns)"
  let ?C = "safe_name sch cn"
  have w: "written g (end_class sch cn fns g) =
       [UnknownFields ?S ?C, ReturnCls (map (safe_name sch) (filter (\<lambda>f. f \<noteq> ''class'') fns))]
       @ serializer g @ [SaveTop, ReturnR, Attrs fns, Newlines]"
    by (rule written_append) (simp add: out_end_class[OF assms(1)])
  from exec_unknown_fields_ok[OF assms(2), of rt ?A ?S ?C] obtain fr' where r:
    "exec_unknown_fields rt ?A ?S ?C fr =
       (if es @ unexpected ?A ?S (map fst d) \<noteq> [] then
          Inl (ValidationException (''Trying '' @ sq @ ?C @ sq) (es @ unexpected ?A ?S (map fst d)))
        else Inr (Next fr'))"
    "locals fr' ''extension_fields''
         = Some (PyDict (extension_of rt d lo (captured ?A (map fst d)) []))" by blast
  have ok: "es @ unexpected ?A ?S (map fst d) = [] \<longrightarrow>
      (\<exists>fr'. exec_stmt rt ?A (UnknownFields ?S ?C) fr = Inr (Next fr')
         \<and> locals fr' ''extension_fields''
             = Some (PyDict (extension_of rt d lo (captured ?A (map fst d)) [])))"
    using r by auto
  have bad: "es @ unexpected ?A ?S (map fst d) \<noteq> [] \<longrightarrow>
      exec_stmt rt ?A (UnknownFields ?S ?C) fr
        = Inl (ValidationException (''Trying '' @ sq @ ?C @ sq) (es @ unexpected ?A ?S (map fst d)))"
    using r by auto
  have u: "unexpected ?A ?S (map fst d)
         = (case find (bare_unknown ?A) (map fst d) of None \<Rightarrow> []
            | Some k \<Rightarrow> [unexpected_field ?S k])"
    by (simp add: unexpected_def)
  have cp: "find (bare_unknown ?A) (map fst d) = None \<longrightarrow>
      captured ?A (map fst d) = filter (\<lambda>k. k \<notin> set ?A) (map fst d)"
    using captured_all by blast
  from w ok bad u cp show ?thesis by blast
qed

theorem unknown_fields_handling_witness:
  "(\<exists>fr'. exec_stmt example_runtime (attrs_of_names [''a''])
            (UnknownFields (join '', '' (map (\<lambda>f. bq @ f @ bq) [''a''])) (safe_name plain_names ''Rec''))
            \<lparr>locals = [''_doc'' \<mapsto> PyDict [(''a'', PyStr ''x''), (''ex:w'', PyStr ''3'')],
                        ''baseuri'' \<mapsto> PyStr ''base/'', ''loadingOptions'' \<mapsto> PyNone,
                        ''_errors__'' \<mapsto> PyList [], ''cls'' \<mapsto> PyClass ''Rec''],
              calls = []\<rparr>
          = Inr (Next fr')
      \<and> locals fr' ''extension_fields'' = Some (PyDict [(''ex:w'', PyStr ''3'')]))
   \<and> exec_stmt example_runtime (attrs_of_names [''a''])
        (UnknownFields (join '', '' (map (\<lambda>f. bq @ f @ bq) [''a''])) (safe_name plain_names ''Rec''))
        \<lparr>locals = [''_doc'' \<mapsto> PyDict [(''ex:w'', PyStr ''3''), (''zz'', PyStr ''1''), (''yy'', PyStr ''2'')],
                    ''baseuri'' \<mapsto> PyStr ''base/'', ''loadingOptions'' \<mapsto> PyNone,
                    ''_errors__'' \<mapsto> PyList [], ''cls'' \<mapsto> PyClass ''Rec''],
          calls = []\<rparr>
      = Inl (ValidationException (''Trying '' @ sq @ safe_name plain_names ''Rec'' @ sq)
          [unexpected_field (join '', '' (map (\<lambda>f. bq @ f @ bq) [''a''])) ''zz''])
   \<and> captured (attrs_of_names [''a'']) [''a'', ''ex:w''] = [''ex:w'']"
proof -
  let ?g = "new_codegen None []"
  let ?d1 = "[(''a'', PyStr ''x''), (''ex:w'', PyStr ''3'')]"
  let ?d2 = "[(''ex:w'', PyStr ''3''), (''zz'', PyStr ''1''), (''yy'', PyStr ''2'')]"
  let ?fr1 = "\<lparr>locals = [''_doc'' \<mapsto> PyDict ?d1,
                        ''baseuri'' \<mapsto> PyStr ''base/'', ''loadingOptions'' \<mapsto> PyNone,
                        ''_errors__'' \<mapsto> PyList [], ''cls'' \<mapsto> PyClass ''Rec''],
              calls = []\<rparr>"
  let ?fr2 = "\<lparr>locals = [''_doc'' \<mapsto> PyDict ?d2,
                        ''baseuri'' \<mapsto> PyStr ''base/'', ''loadingOptions'' \<mapsto> PyNone,
                        ''_errors__'' \<mapsto> PyList [], ''cls'' \<mapsto> PyClass ''Rec''],
              calls = []\<rparr>"
  let ?A = "attrs_of_names [''a'']"
  let ?S = "join '', '' (map (\<lambda>f. bq @ f @ bq) [''a''])"
  have na: "\<not> current_class_is_abstract ?g" by (simp add: new_codegen_def)
  have i1: "in_fromDoc ?fr1 ?d1 (PyStr ''base/'') PyNone [] ''Rec''"
    and i2: "in_fromDoc ?fr2 ?d2 (PyStr ''base/'') PyNone [] ''Rec''"
    by (simp_all add: in_fromDoc_def)
  have u1: "[] @ unexpected ?A ?S (map fst ?d1) = []" by code_simp
  have u2: "[] @ unexpected ?A ?S (map fst ?d2) \<noteq> []" by code_simp
  have u2': "[] @ unexpected ?A ?S (map fst ?d2) = [unexpected_field ?S ''zz'']" by code_simp
  have f1: "find (bare_unknown ?A) (map fst ?d1) = None" by code_simp
  have e1: "extension_of example_runtime ?d1 PyNone (captured ?A (map fst ?d1)) []
      = [(''ex:w'', PyStr ''3'')]" by code_simp
  have m1: "map fst ?d1 = [''a'', ''ex:w'']" by simp
  have k1: "filter (\<lambda>k. k \<notin> set ?A) [''a'', ''ex:w''] = [''ex:w'']" by code_simp
  note t1 = unknown_fields_handling[OF na i1, where rt = example_runtime and sch = plain_names
      and cn = "''Rec''" and fns = "[''a'']"]
  note t2 = unknown_fields_handling[OF na i2, where rt = example_runtime and sch = plain_names
      and cn = "''Rec''" and fns = "[''a'']"]
  have a: "\<exists>fr'. exec_stmt example_runtime ?A (UnknownFields ?S (safe_name plain_names ''Rec'')) ?fr1
          = Inr (Next fr')
      \<and> locals fr' ''extension_fields'' = Some (PyDict [(''ex:w'', PyStr ''3'')])"
    using t1[THEN conjunct2, THEN conjunct1, THEN mp, OF u1] unfolding e1 .
  have b: "exec_stmt example_runtime ?A (UnknownFields ?S (safe_name plain_names ''Rec'')) ?fr2
      = Inl (ValidationException (''Trying '' @ sq @ safe_name plain_names ''Rec'' @ sq)
          [unexpected_field ?S ''zz''])"
    using t2[THEN conjunct2, THEN conjunct2, THEN conjunct1, THEN mp, OF u2] unfolding u2' .
  have c: "captured ?A [''a'', ''ex:w''] = [''ex:w'']"
    using t1[THEN conjunct2, THEN conjunct2, THEN conjunct2, THEN conjunct2, THEN mp, OF f1]
    unfolding m1 k1 .
  from a b c show ?thesis by blast
qed

section \<open>Scalars that name no primitive\<close>

text \<open>
  C6, as stated, fails.  After an enum named \<open>Color\<close> has been resolved, the scalar
  \<open>Color\<close> is no primitive, is not \<open>Expression\<close> and names no record loader (the catalog
  holds none), and yet \<open>type_loader\<close> returns a descriptor: the enum's.
\<close>

theorem scalar_enum_counterexample:
  "(case type_loader plain_names
           (DeclMap (Some ''enum'') None (Some [''red'', ''green'']) (Some ''Color'') None)
           after_prologue of
      Inl e \<Rightarrow> False
    | Inr (en, g1) \<Rightarrow>
        map_of prims ''Color'' = None
        \<and> ''Color'' \<notin> expression_names
        \<and> filter (\<lambda>(k, t). startswith (init t) ''_RecordLoader('') (collected_types g1) = []
        \<and> init en = ''_EnumLoader(('' @ dq @ ''red'' @ dq @ '', '' @ dq @ ''green'' @ dq @ '',))''
        \<and> type_loader plain_names (DeclStr ''Color'') g1 = Inr (en, g1))"
  by code_simp

lemma type_loader_seq_fails:
  assumes "type_loader_seq sch before g = Inr (ts, g1)" and "type_loader sch d g1 = Inl e"
  shows "type_loader_seq sch (before @ d # after) g = Inl e"
  using assms
proof (induction before arbitrary: g ts)
  case Nil
  then show ?case by simp
next
  case (Cons b bs)
  from Cons.prems(1) obtain t h where b: "type_loader sch b g = Inr (t, h)"
    by (auto split: sum.splits)
  with Cons.prems(1) obtain ts' where "type_loader_seq sch bs h = Inr (ts', g1)"
    by (auto split: sum.splits)
  from Cons.IH[OF this Cons.prems(2)] b show ?case by simp
qed

lemma type_loader_plug_fails:
  assumes "reach sch c g = Some g1" and "type_loader sch d g1 = Inl e"
  shows "type_loader sch (plug c d) g = Inl e"
  using assms
proof (induction c arbitrary: g)
  case Hole
  then show ?case by simp
next
  case (ItemsOf tag syms nm ab c)
  from ItemsOf.prems(1) have tag: "tag \<in> array_tags" and r: "reach sch c g = Some g1"
    by (auto split: if_splits)
  from ItemsOf.IH[OF r ItemsOf.prems(2)] tag show ?case by simp
next
  case (MemberOf before c after)
  from MemberOf.prems(1) obtain ts h where b: "type_loader_seq sch before g = Inr (ts, h)"
    and r: "reach sch c h = Some g1"
    by (auto split: sum.splits)
  from type_loader_seq_fails[OF b MemberOf.IH[OF r MemberOf.prems(2)]] show ?case by simp
qed

text \<open>
  C6, amended.  For a scalar that is no primitive and not \<open>Expression\<close>, \<open>type_loader\<close>
  looks the catalog up under the safe name followed by \<open>Loader\<close>, the name under which
  record, enum and expression loaders alike are interned.  It returns the entry found
  there, whatever its kind; when there is none it fails (the \<open>KeyError\<close> of the lookup).
  When the scalar stands inside arrays and unions, at any depth, and the catalog has no
  such entry in the state in which \<open>type_loader\<close> comes to the scalar, the resolution of
  the whole declaration fails with that \<open>KeyError\<close>.
\<close>

theorem scalar_lookup:
  assumes "map_of prims s = None" and "s \<notin> expression_names"
  shows "type_loader sch (DeclStr s) g =
           (case map_of (collected_types g) (safe_name sch s @ ''Loader'') of
              None \<Rightarrow> Inl (KeyError (safe_name sch s @ ''Loader''))
            | Some t \<Rightarrow> Inr (t, g))
       \<and> (reach sch c g = Some g1
            \<and> map_of (collected_types g1) (safe_name sch s @ ''Loader'') = None \<longrightarrow>
            type_loader sch (plug c (DeclStr s)) g
              = Inl (KeyError (safe_name sch s @ ''Loader'')))"
proof -
  have a: "type_loader sch (DeclStr s) h =
           (case map_of (collected_types h) (safe_name sch s @ ''Loader'') of
              None \<Rightarrow> Inl (KeyError (safe_name sch s @ ''Loader''))
            | Some t \<Rightarrow> Inr (t, h))" for h
    using assms by simp
  have b: "type_loader sch (plug c (DeclStr s)) g = Inl (KeyError (safe_name sch s @ ''Loader''))"
    if r: "reach sch c g = Some g1"
      and n: "map_of (collected_types g1) (safe_name sch s @ ''Loader'') = None"
  proof (rule type_loader_plug_fails[OF r])
    show "type_loader sch (DeclStr s) g1 = Inl (KeyError (safe_name sch s @ ''Loader''))"
      unfolding a[of g1] n by simp
  qed
  from a[of g] b show ?thesis by blast
qed

theorem scalar_lookup_witness:
  "map_of prims ''Color'' = None \<and> ''Color'' \<notin> expression_names
   \<and> type_loader plain_names (DeclStr ''Color'') after_prologue = Inl (KeyError ''ColorLoader'')
   \<and> plug (ItemsOf ''array'' None None None (MemberOf [DeclStr ''string''] Hole [DeclStr ''int'']))
        (DeclStr ''Color'')
       = DeclMap (Some ''array'')
           (Some (DeclSeq [DeclStr ''string'', DeclStr ''Color'', DeclStr ''int''])) None None None
   \<and> reach plain_names
        (ItemsOf ''array'' None None None (MemberOf [DeclStr ''string''] Hole [DeclStr ''int'']))
        after_prologue = Some after_prologue
   \<and> map_of (collected_types after_prologue) (safe_name plain_names ''Color'' @ ''Loader'') = None
   \<and> type_loader plain_names
        (DeclMap (Some ''array'')
           (Some (DeclSeq [DeclStr ''string'', DeclStr ''Color'', DeclStr ''int''])) None None None)
        after_prologue = Inl (KeyError ''ColorLoader'')"
proof -
  let ?c = "ItemsOf ''array'' None None None (MemberOf [DeclStr ''string''] Hole [DeclStr ''int''])"
  have a: "map_of prims ''Color'' = None" by code_simp
  have b: "''Color'' \<notin> expression_names" by code_simp
  have c: "map_of (collected_types after_prologue) (safe_name plain_names ''Color'' @ ''Loader'') = None"
    by code_simp
  have d: "safe_name plain_names ''Color'' @ ''Loader'' = ''ColorLoader''" by code_simp
  have r: "reach plain_names ?c after_prologue = Some after_prologue" by code_simp
  have p: "plug ?c (DeclStr ''Color'')
       = DeclMap (Some ''array'')
           (Some (DeclSeq [DeclStr ''string'', DeclStr ''Color'', DeclStr ''int''])) None None None"
    by simp
  note t = scalar_lookup[OF a b, where sch = plain_names and g = after_prologue and c = ?c
      and ?g1.0 = after_prologue]
  have e: "type_loader plain_names (DeclStr ''Color'') after_prologue = Inl (KeyError ''ColorLoader'')"
    using t[THEN conjunct1] by (simp only: d c[unfolded d] option.case)
  have f: "type_loader plain_names (plug ?c (DeclStr ''Color'')) after_prologue
      = Inl (KeyError ''ColorLoader'')"
    using t[THEN conjunct2, THEN mp, OF conjI[OF r c]] unfolding d .
  from a b c r p e f[unfolded p] show ?thesis by blast
qed

section \<open>The field-loader wrappers\<close>




section \<open>The field named class\<close>

text \<open>
  The templates written for a record that is not abstract and has \<open>class\<close> among its field
  names: the parameters of \<open>__init__\<close> are those of the other fields; the assignment written
  for \<open>class\<close> is \<open>self.class_ = "{classname}"\<close>; \<open>fromDoc\<close> checks that the document's
  \<open>class\<close> is the class name and raises otherwise; \<open>save\<close> writes the class name as a
  literal; \<open>declare_field\<close> writes nothing for a field whose short name is \<open>class\<close>; and
  the call \<open>cls(...)\<close> at the end of \<open>fromDoc\<close> passes no argument for it.
\<close>

lemma class_field_templates:
  assumes "''class'' \<in> set fns"
  shows "written g (begin_class sch cn extends doc False fns idf optional_fields g) =
       [ClassHeader (safe_name sch cn)
          (if extends \<noteq> [] then join '', '' (map (safe_name sch) extends) else ''Savable'')]
       @ (if doc \<noteq> [] then [DocString doc] else [])
       @ [InitMethod
            (map (\<lambda>f. Required (safe_name sch f))
               (filter (\<lambda>f. f \<notin> optional_fields) (removeAll ''class'' fns))
             @ map (\<lambda>f. Optional (safe_name sch f))
               (filter (\<lambda>f. f \<in> optional_fields) (removeAll ''class'' fns))),
          FieldInits (map (\<lambda>n. if n = ''class'' then SelfClass (safe_name sch cn)
                                else SelfField (safe_name sch n)) fns),
          FromDocHeader (safe_name sch cn),
          ClassCheck (safe_name sch cn)]
     \<and> serializer (begin_class sch cn extends doc False fns idf optional_fields g)
         = [SaveHeader, SaveClass (safe_name sch cn)]
     \<and> (locals fr ''_doc'' = Some (PyDict d) \<longrightarrow>
          exec_stmt rt attrs (ClassCheck (safe_name sch cn)) fr
            = (if map_of d ''class'' = Some (PyStr (safe_name sch cn)) then Inr (Next fr)
               else Inl (ValidationException (''Not a '' @ safe_name sch cn) [])))
     \<and> (shortname sch nm = ''class'' \<longrightarrow> declare_field sch nm ft fdoc optional g' = g')
     \<and> (\<not> current_class_is_abstract g' \<longrightarrow>
          written g' (end_class sch cn fns g') =
            [UnknownFields (join '', '' (map (\<lambda>f. bq @ f @ bq) fns)) (safe_name sch cn),
             ReturnCls (map (safe_name sch) (removeAll ''class'' fns))]
            @ serializer g' @ [SaveTop, ReturnR, Attrs fns, Newlines])"
proof -
  have rm: "filter (\<lambda>f. f \<noteq> ''class'') xs = removeAll ''class'' xs" for xs :: "string list"
    by (induction xs) auto
  have comm: "filter (\<lambda>f. f \<noteq> ''class'') (filter P xs) = filter P (removeAll ''class'' xs)"
    for P and xs :: "string list"
    by (induction xs) auto
  have a: "out (begin_class sch cn extends doc False fns idf optional_fields g) = out g @
       ([ClassHeader (safe_name sch cn)
          (if extends \<noteq> [] then join '', '' (map (safe_name sch) extends) else ''Savable'')]
       @ (if doc \<noteq> [] then [DocString doc] else [])
       @ [InitMethod
            (map (\<lambda>f. Required (safe_name sch f))
               (filter (\<lambda>f. f \<notin> optional_fields) (removeAll ''class'' fns))
             @ map (\<lambda>f. Optional (safe_name sch f))
               (filter (\<lambda>f. f \<in> optional_fields) (removeAll ''class'' fns))),
          FieldInits (map (\<lambda>n. if n = ''class'' then SelfClass (safe_name sch cn)
                                else SelfField (safe_name sch n)) fns),
          FromDocHeader (safe_name sch cn),
          ClassCheck (safe_name sch cn)])"
    using assms by (simp add: begin_class_def Let_def comm del: filter_filter)
  have b: "serializer (begin_class sch cn extends doc False fns idf optional_fields g)
         = [SaveHeader, SaveClass (safe_name sch cn)]"
    using assms by (simp add: begin_class_def Let_def)
  have c: "locals fr ''_doc'' = Some (PyDict d) \<longrightarrow>
          exec_stmt rt attrs (ClassCheck (safe_name sch cn)) fr
            = (if map_of d ''class'' = Some (PyStr (safe_name sch cn)) then Inr (Next fr)
               else Inl (ValidationException (''Not a '' @ safe_name sch cn) []))"
    by (auto simp: exec_class_check_def lookup_def dict_get_def split: option.splits)
  have d: "shortname sch nm = ''class'' \<longrightarrow> declare_field sch nm ft fdoc optional g' = g'"
    by (simp add: declare_field_def)
  have e: "\<not> current_class_is_abstract g' \<longrightarrow>
          written g' (end_class sch cn fns g') =
            [UnknownFields (join '', '' (map (\<lambda>f. bq @ f @ bq) fns)) (safe_name sch cn),
             ReturnCls (map (safe_name sch) (removeAll ''class'' fns))]
            @ serializer g' @ [SaveTop, ReturnR, Attrs fns, Newlines]"
  proof
    assume na: "\<not> current_class_is_abstract g'"
    show "written g' (end_class sch cn fns g') =
            [UnknownFields (join '', '' (map (\<lambda>f. bq @ f @ bq) fns)) (safe_name sch cn),
             ReturnCls (map (safe_name sch) (removeAll ''class'' fns))]
            @ serializer g' @ [SaveTop, ReturnR, Attrs fns, Newlines]"
      by (rule written_append) (simp add: out_end_class[OF na] rm)
  qed
  from written_append[OF a] b c d e show ?thesis by blast
qed

lemma class_field_templates_example:
  "written (new_codegen None [])
       (begin_class plain_names ''Rec'' [] [] False [''class'', ''a''] [] {} (new_codegen None []))
     = [ClassHeader ''Rec'' ''Savable'', InitMethod [Required ''a''],
        FieldInits [SelfClass ''Rec'', SelfField ''a''], FromDocHeader ''Rec'', ClassCheck ''Rec'']
   \<and> serializer (begin_class plain_names ''Rec'' [] [] False [''class'', ''a''] [] {}
        (new_codegen None [])) = [SaveHeader, SaveClass ''Rec'']
   \<and> raised (exec_stmt example_runtime [] (ClassCheck ''Rec'')
        \<lparr>locals = [''_doc'' \<mapsto> PyDict [(''class'', PyStr ''Other''), (''a'', PyStr ''x'')]], calls = []\<rparr>)
      = Some (ValidationException ''Not a Rec'' [])
   \<and> raised (exec_stmt example_runtime [] (ClassCheck ''Rec'')
        \<lparr>locals = [''_doc'' \<mapsto> PyDict [(''class'', PyStr ''Rec''), (''a'', PyStr ''x'')]], calls = []\<rparr>)
      = None
   \<and> out (declare_field plain_names ''class'' string_type_def None False
        (begin_class plain_names ''Rec'' [] [] False [''class'', ''a''] [] {} (new_codegen None [])))
      = out (begin_class plain_names ''Rec'' [] [] False [''class'', ''a''] [] {} (new_codegen None []))
   \<and> written (begin_class plain_names ''Rec'' [] [] False [''class'', ''a''] [] {} (new_codegen None []))
        (end_class plain_names ''Rec'' [''class'', ''a'']
          (begin_class plain_names ''Rec'' [] [] False [''class'', ''a''] [] {} (new_codegen None [])))
      = [UnknownFields (join '', '' (map (\<lambda>f. bq @ f @ bq) [''class'', ''a''])) ''Rec'',
         ReturnCls [''a''], SaveHeader, SaveClass ''Rec'', SaveTop, ReturnR,
         Attrs [''class'', ''a''], Newlines]"
proof -
  let ?g = "new_codegen None []"
  let ?g' = "begin_class plain_names ''Rec'' [] [] False [''class'', ''a''] [] {} ?g"
  let ?frbad = "\<lparr>locals = [''_doc'' \<mapsto> PyDict [(''class'', PyStr ''Other''), (''a'', PyStr ''x'')]], calls = []\<rparr>"
  let ?frok = "\<lparr>locals = [''_doc'' \<mapsto> PyDict [(''class'', PyStr ''Rec''), (''a'', PyStr ''x'')]], calls = []\<rparr>"
  have mem: "''class'' \<in> set [''class'', ''a'']" by simp
  have sn: "safe_name plain_names ''Rec'' = ''Rec''" "safe_name plain_names ''a'' = ''a''"
    "shortname plain_names ''class'' = ''class''"
    by code_simp+
  have na: "\<not> current_class_is_abstract ?g'"
    by (simp add: begin_class_def Let_def new_codegen_def)
  note t0 = class_field_templates[OF mem, where sch = plain_names
        and cn = "''Rec''" and g = ?g and extends = "[]" and doc = "[]" and idf = "[]"
        and optional_fields = "{}"]
  have ser: "serializer ?g' = [SaveHeader, SaveClass ''Rec'']"
    using t0[THEN conjunct2, THEN conjunct1] unfolding sn .
  note t1 = class_field_templates[OF mem, where g = ?g and sch = plain_names and cn = "''Rec''"
      and extends = "[]" and doc = "[]" and idf = "[]" and optional_fields = "{}"
      and rt = example_runtime and attrs = "[]" and g' = ?g' and nm = "''class''"
      and ft = string_type_def and fdoc = None and optional = False and fr = ?frbad
      and d = "[(''class'', PyStr ''Other''), (''a'', PyStr ''x'')]"]
  note t2 = class_field_templates[OF mem, where g = ?g and sch = plain_names and cn = "''Rec''"
      and extends = "[]" and doc = "[]" and idf = "[]" and optional_fields = "{}"
      and rt = example_runtime and attrs = "[]" and g' = ?g' and nm = "''class''"
      and ft = string_type_def and fdoc = None and optional = False and fr = ?frok
      and d = "[(''class'', PyStr ''Rec''), (''a'', PyStr ''x'')]"]
  have a: "written ?g ?g' = [ClassHeader ''Rec'' ''Savable'', InitMethod [Required ''a''],
        FieldInits [SelfClass ''Rec'', SelfField ''a''], FromDocHeader ''Rec'', ClassCheck ''Rec'']"
    using t1[THEN conjunct1] by (simp add: sn)
  have b: "raised (exec_stmt example_runtime [] (ClassCheck ''Rec'') ?frbad)
      = Some (ValidationException ''Not a Rec'' [])"
    using t1[THEN conjunct2, THEN conjunct2, THEN conjunct1] unfolding sn
    by (simp add: raised_def)
  have c: "raised (exec_stmt example_runtime [] (ClassCheck ''Rec'') ?frok) = None"
    using t2[THEN conjunct2, THEN conjunct2, THEN conjunct1] unfolding sn
    by (simp add: raised_def)
  have d: "out (declare_field plain_names ''class'' string_type_def None False ?g') = out ?g'"
    using t1[THEN conjunct2, THEN conjunct2, THEN conjunct2, THEN conjunct1] sn by simp
  have e: "written ?g' (end_class plain_names ''Rec'' [''class'', ''a''] ?g')
      = [UnknownFields (join '', '' (map (\<lambda>f. bq @ f @ bq) [''class'', ''a''])) ''Rec'',
         ReturnCls [''a''], SaveHeader, SaveClass ''Rec'', SaveTop, ReturnR,
         Attrs [''class'', ''a''], Newlines]"
    using t1[THEN conjunct2, THEN conjunct2, THEN conjunct2, THEN conjunct2, THEN mp, OF na]
    by (simp add: sn ser)
  from a ser b c d e show ?thesis by blast
qed

text \<open>
  What \<open>__init__\<close> does with them: when no other field has the safe name \<open>class_\<close>, every
  call of \<open>__init__\<close> that fits the signature leaves the class name in the attribute
  \<open>class_\<close>.
\<close>

lemma exec_field_inits_class:
  assumes "\<forall>i\<in>set inits. (case i of SelfClass c' \<Rightarrow> c' = c
                              | SelfField n \<Rightarrow> n \<noteq> ''class_'' \<and> args n \<noteq> None)"
  shows "\<exists>self'. exec_field_inits inits args self = Inr self'
           \<and> map_of self' ''class_'' =
               (if SelfClass c \<in> set inits then Some (PyStr c) else map_of self ''class_'')"
  using assms
proof (induction inits arbitrary: self)
  case Nil
  then show ?case by simp
next
  case (Cons i inits)
  from Cons.prems have rest: "\<forall>i\<in>set inits. (case i of SelfClass c' \<Rightarrow> c' = c
                              | SelfField n \<Rightarrow> n \<noteq> ''class_'' \<and> args n \<noteq> None)"
    by simp
  show ?case
  proof (cases i)
    case (SelfClass c')
    with Cons.prems have c: "c' = c" by simp
    from Cons.IH[OF rest, of "AList.update ''class_'' (PyStr c) self"] SelfClass c
    show ?thesis by (auto simp: update_conv')
  next
    case (SelfField n)
    with Cons.prems obtain v where n: "n \<noteq> ''class_''" and v: "args n = Some v" by auto
    from Cons.IH[OF rest, of "AList.update n v self"] SelfField n v
    show ?thesis by (auto simp: update_conv')
  qed
qed

lemma class_attribute_fixed:
  assumes cls: "''class'' \<in> set fns"
    and other: "\<forall>f\<in>set fns. f \<noteq> ''class'' \<longrightarrow> safe_name sch f \<noteq> ''class_''"
    and dist: "distinct (''self'' # map (safe_name sch) (filter (\<lambda>f. f \<notin> optional_fields) (removeAll ''class'' fns))
                 @ map (safe_name sch) (filter (\<lambda>f. f \<in> optional_fields) (removeAll ''class'' fns))
                 @ [''extension_fields'', ''loadingOptions''])"
    and known: "fst ` set kwargs \<subseteq> safe_name sch ` (set fns - {''class''})
                  \<union> {''extension_fields'', ''loadingOptions''}"
    and required: "safe_name sch ` (set fns - {''class''} - optional_fields) \<subseteq> fst ` set kwargs"
  shows "\<exists>attrs. construct (written g (begin_class sch cn extends doc False fns idf optional_fields g))
                   kwargs = Inr attrs
           \<and> map_of attrs ''class_'' = Some (PyStr (safe_name sch cn))"
proof -
  let ?req = "filter (\<lambda>f. f \<notin> optional_fields) (removeAll ''class'' fns)"
  let ?opt = "filter (\<lambda>f. f \<in> optional_fields) (removeAll ''class'' fns)"
  let ?params = "map (\<lambda>f. Required (safe_name sch f)) ?req @ map (\<lambda>f. Optional (safe_name sch f)) ?opt"
  let ?inits = "map (\<lambda>n. if n = ''class'' then SelfClass (safe_name sch cn)
                          else SelfField (safe_name sch n)) fns"
  let ?names = "map param_name ?params @ [''extension_fields'', ''loadingOptions'']"
  let ?args = "\<lambda>n. if n \<in> set ?names then Some (dict_get kwargs n) else None"
  have pn: "map param_name ?params = map (safe_name sch) ?req @ map (safe_name sch) ?opt"
    by (simp add: param_name_def comp_def)
  have names: "set ?names = safe_name sch ` (set fns - {''class''})
                  \<union> {''extension_fields'', ''loadingOptions''}"
    unfolding pn by auto
  have ci: "class_init (written g (begin_class sch cn extends doc False fns idf optional_fields g))
      = Some (?params, ?inits)"
    unfolding class_field_templates[OF cls, THEN conjunct1] by simp
  have d: "distinct (''self'' # ?names)" unfolding pn using dist by simp
  have k: "find (\<lambda>k. k \<notin> set ?names) (map fst kwargs) = None"
    unfolding find_None_iff names using known by auto
  have r: "find (\<lambda>p. case p of Required n \<Rightarrow> n \<notin> fst ` set kwargs | Optional n \<Rightarrow> False) ?params = None"
  proof -
    have "safe_name sch f \<in> fst ` set kwargs"
      if "f \<in> set fns" "f \<noteq> ''class''" "f \<notin> optional_fields" for f
      using required that by blast
    then show ?thesis unfolding find_None_iff by auto
  qed
  have i: "\<forall>i\<in>set ?inits. (case i of SelfClass c' \<Rightarrow> c' = safe_name sch cn
                              | SelfField n \<Rightarrow> n \<noteq> ''class_'' \<and> ?args n \<noteq> None)"
    unfolding names using other by auto
  have m: "SelfClass (safe_name sch cn) \<in> set ?inits" using cls by force
  from exec_field_inits_class[OF i] m obtain attrs where
    "exec_field_inits ?inits ?args
       [(''extension_fields'', if truthy (dict_get kwargs ''extension_fields'')
                               then dict_get kwargs ''extension_fields'' else PyDict []),
        (''loadingOptions'', if truthy (dict_get kwargs ''loadingOptions'')
                             then dict_get kwargs ''loadingOptions'' else PyObj ''LoadingOptions'' [])]
      = Inr attrs" and "map_of attrs ''class_'' = Some (PyStr (safe_name sch cn))"
    by (metis (no_types, lifting))
  moreover have "construct (written g (begin_class sch cn extends doc False fns idf optional_fields g))
      kwargs
    = exec_field_inits ?inits ?args
       [(''extension_fields'', if truthy (dict_get kwargs ''extension_fields'')
                               then dict_get kwargs ''extension_fields'' else PyDict []),
        (''loadingOptions'', if truthy (dict_get kwargs ''loadingOptions'')
                             then dict_get kwargs ''loadingOptions'' else PyObj ''LoadingOptions'' [])]"
    unfolding construct_def ci call_init_def Let_def
    by (simp only: d k r if_False not_True_eq_False option.case prod.case)
  ultimately show ?thesis by (simp only: ex_simps) blast
qed

lemma class_attribute_fixed_example:
  "\<exists>attrs. construct (written (new_codegen None [])
              (begin_class plain_names ''Rec'' [] [] False [''class'', ''a''] [] {} (new_codegen None [])))
              [(''a'', PyStr ''x'')] = Inr attrs
           \<and> map_of attrs ''class_'' = Some (PyStr ''Rec'')"
proof -
  have sn: "safe_name plain_names ''Rec'' = ''Rec''" "safe_name plain_names ''a'' = ''a''"
    by code_simp+
  have "''class'' \<in> set [''class'', ''a'']" by simp
  from class_attribute_fixed[OF this, where sch = plain_names and optional_fields = "{}"
      and kwargs = "[(''a'', PyStr ''x'')]" and cn = "''Rec''"]
  show ?thesis by (simp add: sn)
qed

text \<open>
  C8 fails for a record with the two fields \<open>class\<close> and \<open>class_\<close>.  \<open>safe_name\<close> gives both
  the name \<open>class_\<close>, so \<open>__init__\<close> has the parameter \<open>class_\<close>, and its assignments are
  \<open>self.class_ = "Rec"\<close> followed by \<open>self.class_ = class_\<close>.  The call \<open>Rec(class_="Other")\<close>
  builds an object whose attribute \<open>class_\<close> is \<open>Other\<close>, not the class name, and so does
  \<open>fromDoc\<close> on a document whose \<open>class\<close> is \<open>Rec\<close> and whose \<open>class_\<close> is \<open>Other\<close>: the
  attribute is what the loader makes of \<open>Other\<close>.
\<close>

theorem class_attribute_overwritten:
  "written (new_codegen None [])
       (begin_class plain_names ''Rec'' [] [] False [''class'', ''class_''] [] {} (new_codegen None []))
     = [ClassHeader ''Rec'' ''Savable'', InitMethod [Required ''class_''],
        FieldInits [SelfClass ''Rec'', SelfField ''class_''], FromDocHeader ''Rec'', ClassCheck ''Rec'']
   \<and> construct (out class_record) [(''class_'', PyStr ''Other'')]
       = Inr [(''extension_fields'', PyDict []), (''loadingOptions'', PyObj ''LoadingOptions'' []),
              (''class_'', PyStr ''Other'')]
   \<and> (case fromDoc example_runtime (out class_record) ''Rec''
             (PyDict [(''class'', PyStr ''Rec''), (''class_'', PyStr ''Other'')])
             (PyStr ''base/'') (PyObj ''LoadingOptions'' []) PyNone of
         Inr (Returned (PyObj c kwargs)) \<Rightarrow>
           c = ''Rec''
           \<and> kwargs = [(''class_'', PyStr ''base/Other''), (''extension_fields'', PyDict []),
                       (''loadingOptions'', PyObj ''LoadingOptions'' [])]
           \<and> construct (out class_record) kwargs
               = Inr [(''extension_fields'', PyDict []), (''loadingOptions'', PyObj ''LoadingOptions'' []),
                      (''class_'', PyStr ''base/Other'')]
       | _ \<Rightarrow> False)"
  by code_simp


section \<open>epilogue\<close>

lemma write_bindings_ok:
  "list_all2 (\<lambda>t s. fmt fm (binding_text t) 0 = Inr s) (filter (\<lambda>t. \<not> abstract t) ts) ss
   \<Longrightarrow> write_bindings fm ts g = Inr (g\<lparr>out := out g @ map LoaderBinding ss\<rparr>)"
proof (induction ts arbitrary: g ss)
  case Nil
  then show ?case by simp
next
  case (Cons t ts)
  show ?case
  proof (cases "abstract t")
    case True
    with Cons.prems have "list_all2 (\<lambda>t s. fmt fm (binding_text t) 0 = Inr s)
        (filter (\<lambda>t. \<not> abstract t) ts) ss" by simp
    from Cons.IH[OF this] True show ?thesis by simp
  next
    case False
    with Cons.prems obtain s ss' where ss: "ss = s # ss'"
      and s: "fmt fm (binding_text t) 0 = Inr s"
      and rest: "list_all2 (\<lambda>t s. fmt fm (binding_text t) 0 = Inr s)
        (filter (\<lambda>t. \<not> abstract t) ts) ss'"
      by (auto simp: list_all2_Cons1)
    from Cons.IH[OF rest, of "g\<lparr>out := out g @ [LoaderBinding s]\<rparr>"] False s ss
    show ?thesis by simp
  qed
qed

lemma write_bindings_fails:
  "filter (\<lambda>t. \<not> abstract t) ts = us @ u # us'
   \<Longrightarrow> list_all2 (\<lambda>t s. fmt fm (binding_text t) 0 = Inr s) us ss
   \<Longrightarrow> fmt fm (binding_text u) 0 = Inl e
   \<Longrightarrow> write_bindings fm ts g = Inl e"
proof (induction ts arbitrary: g us ss)
  case Nil
  then show ?case by simp
next
  case (Cons t ts)
  show ?case
  proof (cases "abstract t")
    case True
    with Cons.prems(1) have "filter (\<lambda>t. \<not> abstract t) ts = us @ u # us'" by simp
    from Cons.IH[OF this Cons.prems(2) Cons.prems(3)] True show ?thesis by simp
  next
    case False
    with Cons.prems(1) have f: "t # filter (\<lambda>t. \<not> abstract t) ts = us @ u # us'" by simp
    show ?thesis
    proof (cases us)
      case Nil
      with f have "t = u" by simp
      with False Cons.prems(3) show ?thesis by simp
    next
      case (Cons v vs)
      with f have tv: "t = v" and r: "filter (\<lambda>t. \<not> abstract t) ts = vs @ u # us'" by simp_all
      from Cons.prems(2) Cons obtain s ss' where s: "fmt fm (binding_text v) 0 = Inr s"
        and rest: "list_all2 (\<lambda>t s. fmt fm (binding_text t) 0 = Inr s) vs ss'"
        by (auto simp: list_all2_Cons1)
      from Cons.IH[OF r rest Cons.prems(3), of "g\<lparr>out := out g @ [LoaderBinding s]\<rparr>"] False tv s
      show ?thesis by simp
    qed
  qed
qed

text \<open>
  C9, as stated, fails.  Every binding is written through \<open>fmt\<close>.  Where \<open>black\<close> is not
  installed, \<open>epilogue\<close> after the prologue raises at the binding of the first loader of
  the catalog; where \<open>black\<close> refuses the text of a binding, here
  that of the union without members, \<open>epilogue\<close> raises what \<open>black\<close> raises.  Neither run
  comes to the entry points.
\<close>

theorem epilogue_fmt_counterexample:
  "(case epilogue no_black string_type_def after_prologue of
      Inl e \<Rightarrow>
        e = Exception (''Must install '' @ sq @ ''black'' @ sq
              @ '' to use the Python code generator. ''
              @ ''If installing schema-salad via pip, try '' @ bq
              @ ''pip install schema-salad[pycodegen]'' @ bq @ ''.'')
    | Inr g \<Rightarrow> False)
   \<and> filter (\<lambda>t. \<not> abstract t) (map snd (collected_types after_prologue)) \<noteq> []
   \<and> map binding_text (filter (\<lambda>t. name t = ''union_of_'') (map snd (collected_types empty_union_state)))
       = [''union_of_ = _UnionLoader((,))'' @ [CHR 0x0A]]
   \<and> (case epilogue (refusing (''union_of_ = _UnionLoader((,))'' @ [CHR 0x0A])) string_type_def
             empty_union_state of
        Inl e \<Rightarrow> e = Exception ''Cannot parse''
      | Inr g \<Rightarrow> False)"
  by code_simp

text \<open>
  C9, amended.  \<open>epilogue\<close> appends, in this order: the forward vocabulary table and the
  reverse one, each with one entry per key of the vocabulary in sorted key order and with
  the URI the vocabulary holds for the key; for every descriptor of the catalog whose
  \<open>abstract\<close> flag is false, and for none of the others, in the order of the catalog, the
  text that \<open>fmt\<close> returns for its binding; and the text of the three entry points with the
  name of the root loader.  It does so when \<open>fmt\<close> returns a text for each of these
  bindings.  When \<open>fmt\<close> raises for one of them, and returns a text for those before it,
  \<open>epilogue\<close> raises the same exception, and does not come to the entry points.
\<close>

theorem epilogue_order:
  "(list_all2 (\<lambda>t s. fmt fm (binding_text t) 0 = Inr s)
       (filter (\<lambda>t. \<not> abstract t) (map snd (collected_types g))) ss \<longrightarrow>
     epilogue fm root_loader g =
       Inr (g\<lparr>out := out g
            @ [VocabOpen] @ map (\<lambda>(k, uri). VocabEntry k uri) (vocab_items (vocab g)) @ [VocabClose]
            @ [RVocabOpen] @ map (\<lambda>(k, uri). RVocabEntry uri k) (vocab_items (vocab g))
            @ [RVocabClose]
            @ map LoaderBinding ss
            @ [Newlines, EntryPoints (name root_loader)]\<rparr>))
   \<and> (filter (\<lambda>t. \<not> abstract t) (map snd (collected_types g)) = us @ u # us'
        \<and> list_all2 (\<lambda>t s. fmt fm (binding_text t) 0 = Inr s) us ss'
        \<and> fmt fm (binding_text u) 0 = Inl e \<longrightarrow>
      epilogue fm root_loader g = Inl e)
   \<and> map fst (vocab_items (vocab g)) = sort (map fst (vocab g))
   \<and> sorted (map fst (vocab_items (vocab g)))
   \<and> list_all (\<lambda>(k, uri). map_of (vocab g) k = Some uri) (vocab_items (vocab g))"
proof -
  let ?tables = "[VocabOpen] @ map (\<lambda>(k, uri). VocabEntry k uri) (vocab_items (vocab g)) @ [VocabClose]
            @ [RVocabOpen] @ map (\<lambda>(k, uri). RVocabEntry uri k) (vocab_items (vocab g))
            @ [RVocabClose]"
  have e: "epilogue fm root_loader g =
      (case write_bindings fm (map snd (collected_types g)) (g\<lparr>out := out g @ ?tables\<rparr>) of
         Inl e \<Rightarrow> Inl e
       | Inr g' \<Rightarrow> Inr (g'\<lparr>out := out g' @ [Newlines, EntryPoints (name root_loader)]\<rparr>))"
    by (simp add: epilogue_def Let_def split: sum.splits)
  have a: "epilogue fm root_loader g =
       Inr (g\<lparr>out := out g @ ?tables @ map LoaderBinding ss
            @ [Newlines, EntryPoints (name root_loader)]\<rparr>)"
    if "list_all2 (\<lambda>t s. fmt fm (binding_text t) 0 = Inr s)
       (filter (\<lambda>t. \<not> abstract t) (map snd (collected_types g))) ss"
    unfolding e write_bindings_ok[OF that] by simp
  have b: "epilogue fm root_loader g = Inl e"
    if "filter (\<lambda>t. \<not> abstract t) (map snd (collected_types g)) = us @ u # us'"
      and "list_all2 (\<lambda>t s. fmt fm (binding_text t) 0 = Inr s) us ss'"
      and "fmt fm (binding_text u) 0 = Inl e"
    unfolding e write_bindings_fails[OF that] by simp
  from a b show ?thesis
    by (simp add: fst_vocab_items vocab_items_lookup)
qed

theorem epilogue_order_witness:
  "list_all2 (\<lambda>t s. fmt plain_formatting (binding_text t) 0 = Inr s)
       (filter (\<lambda>t. \<not> abstract t) (map snd (collected_types enum_state)))
       (map (\<lambda>b. b @ [CHR 0x0A])
          [''strtype = _PrimitiveLoader(str)'', ''inttype = _PrimitiveLoader(int)'',
           ''floattype = _PrimitiveLoader(float)'', ''booltype = _PrimitiveLoader(bool)'',
           ''None_type = _PrimitiveLoader(type(None))'', ''Any_type = _AnyLoader()'',
           ''ColorLoader = _EnumLoader(('' @ dq @ ''red'' @ dq @ '', '' @ dq @ ''green'' @ dq @ '',))''])
   \<and> map name (filter abstract (map snd (collected_types enum_state))) = [''BaseLoader'']
   \<and> map_sum id (written enum_state) (epilogue plain_formatting string_type_def enum_state)
       = Inr ([VocabOpen, VocabEntry ''green'' ''green'', VocabEntry ''red'' ''red'', VocabClose,
               RVocabOpen, RVocabEntry ''green'' ''green'', RVocabEntry ''red'' ''red'', RVocabClose]
              @ map (\<lambda>b. LoaderBinding (b @ [CHR 0x0A]))
                 [''strtype = _PrimitiveLoader(str)'', ''inttype = _PrimitiveLoader(int)'',
                  ''floattype = _PrimitiveLoader(float)'', ''booltype = _PrimitiveLoader(bool)'',
                  ''None_type = _PrimitiveLoader(type(None))'', ''Any_type = _AnyLoader()'',
                  ''ColorLoader = _EnumLoader(('' @ dq @ ''red'' @ dq @ '', '' @ dq @ ''green'' @ dq
                    @ '',))'']
              @ [Newlines, EntryPoints ''strtype''])
   \<and> filter (\<lambda>t. \<not> abstract t) (map snd (collected_types empty_union_state))
       = [string_type_def, int_type_def, float_type_def, bool_type_def, null_type_def, any_type_def]
         @ union_type_def [] # []
   \<and> binding_text (union_type_def []) = ''union_of_ = _UnionLoader((,))'' @ [CHR 0x0A]
   \<and> epilogue (refusing (''union_of_ = _UnionLoader((,))'' @ [CHR 0x0A])) string_type_def
        empty_union_state = Inl (Exception ''Cannot parse'')"
proof -
  let ?ss = "map (\<lambda>b. b @ [CHR 0x0A])
          [''strtype = _PrimitiveLoader(str)'', ''inttype = _PrimitiveLoader(int)'',
           ''floattype = _PrimitiveLoader(float)'', ''booltype = _PrimitiveLoader(bool)'',
           ''None_type = _PrimitiveLoader(type(None))'', ''Any_type = _AnyLoader()'',
           ''ColorLoader = _EnumLoader(('' @ dq @ ''red'' @ dq @ '', '' @ dq @ ''green'' @ dq @ '',))'']"
  let ?bad = "''union_of_ = _UnionLoader((,))'' @ [CHR 0x0A]"
  let ?us = "[string_type_def, int_type_def, float_type_def, bool_type_def, null_type_def, any_type_def]"
  let ?ss' = "map (\<lambda>b. b @ [CHR 0x0A])
          [''strtype = _PrimitiveLoader(str)'', ''inttype = _PrimitiveLoader(int)'',
           ''floattype = _PrimitiveLoader(float)'', ''booltype = _PrimitiveLoader(bool)'',
           ''None_type = _PrimitiveLoader(type(None))'', ''Any_type = _AnyLoader()'']"
  have h: "list_all2 (\<lambda>t s. fmt plain_formatting (binding_text t) 0 = Inr s)
       (filter (\<lambda>t. \<not> abstract t) (map snd (collected_types enum_state))) ?ss"
    by code_simp
  have ab: "map name (filter abstract (map snd (collected_types enum_state))) = [''BaseLoader'']"
    by code_simp
  have v: "vocab_items (vocab enum_state) = [(''green'', ''green''), (''red'', ''red'')]"
    by code_simp
  have f: "filter (\<lambda>t. \<not> abstract t) (map snd (collected_types empty_union_state))
       = ?us @ union_type_def [] # []"
    by code_simp
  have p: "list_all2 (\<lambda>t s. fmt (refusing ?bad) (binding_text t) 0 = Inr s) ?us ?ss'"
    by code_simp
  have bt: "binding_text (union_type_def []) = ?bad" by code_simp
  have r: "fmt (refusing ?bad) (binding_text (union_type_def [])) 0 = Inl (Exception ''Cannot parse'')"
    by code_simp
  have n: "name string_type_def = ''strtype''" by code_simp
  note t1 = epilogue_order[where fm = plain_formatting and g = enum_state and ss = ?ss
      and root_loader = string_type_def]
  note t2 = epilogue_order[where fm = "refusing ?bad" and g = empty_union_state and us = ?us
      and u = "union_type_def []" and us' = "[]" and ss' = ?ss'
      and e = "Exception ''Cannot parse''" and root_loader = string_type_def]
  have a: "map_sum id (written enum_state) (epilogue plain_formatting string_type_def enum_state)
       = Inr ([VocabOpen, VocabEntry ''green'' ''green'', VocabEntry ''red'' ''red'', VocabClose,
               RVocabOpen, RVocabEntry ''green'' ''green'', RVocabEntry ''red'' ''red'', RVocabClose]
              @ map LoaderBinding ?ss @ [Newlines, EntryPoints ''strtype''])"
    unfolding t1[THEN conjunct1, THEN mp, OF h] v n by (simp add: written_def)
  have b: "epilogue (refusing ?bad) string_type_def empty_union_state = Inl (Exception ''Cannot parse'')"
    by (rule t2[THEN conjunct2, THEN conjunct1, THEN mp, OF conjI[OF f conjI[OF p r]]])
  from h ab a f bt b show ?thesis by (simp add: comp_def)
qed
section \<open>Properties of type resolution\<close>

text \<open>
  C10.  The scalars \<open>long\<close> and \<open>int\<close>, in short or fully qualified form, resolve to one
  and the same primitive descriptor, named \<open>inttype\<close>, and \<open>double\<close> and \<open>float\<close> to one
  and the same descriptor, named \<open>floattype\<close>; the generator's state is left as it was.
\<close>

theorem long_int_double_float_same_descriptor:
  "type_loader sch (DeclStr ''long'') g = Inr (int_type_def, g)
   \<and> type_loader sch (DeclStr ''int'') g = Inr (int_type_def, g)
   \<and> type_loader sch (DeclStr ''http://www.w3.org/2001/XMLSchema#long'') g = Inr (int_type_def, g)
   \<and> type_loader sch (DeclStr ''http://www.w3.org/2001/XMLSchema#int'') g = Inr (int_type_def, g)
   \<and> name int_type_def = ''inttype''
   \<and> type_loader sch (DeclStr ''double'') g = Inr (float_type_def, g)
   \<and> type_loader sch (DeclStr ''float'') g = Inr (float_type_def, g)
   \<and> type_loader sch (DeclStr ''http://www.w3.org/2001/XMLSchema#double'') g = Inr (float_type_def, g)
   \<and> type_loader sch (DeclStr ''http://www.w3.org/2001/XMLSchema#float'') g = Inr (float_type_def, g)
   \<and> name float_type_def = ''floattype''"
  by (simp add: prims_def int_type_def_def float_type_def_def mkTypeDef_def)

end
